theory Spec2Isabelle
  imports Main "HOL-Library.Sublist" "HOL-Library.Word"
begin

unbundle bit_operations_syntax

section \<open>The bootloader utilities of \<^verbatim>\<open>bootloader/src/pyi_utils.c\<close>\<close>

text \<open>
  The development embeds the process-lifecycle and environment-staging functions of
  \<^verbatim>\<open>pyi_utils.c\<close>. C strings are \<open>string\<close> (the bytes before the terminating NUL), a
  \<^verbatim>\<open>char *\<close> that may be NULL is a \<open>string option\<close>, and the process environment is a
  map from names to values. The source selects its code by preprocessor symbols:
  a function that has a \<^verbatim>\<open>_WIN32\<close> branch of its own is embedded twice, the Windows one
  with the suffix \<open>_win32\<close>; each of \<^verbatim>\<open>AIX\<close>, \<^verbatim>\<open>HAVE_UNSETENV\<close> and
  \<^verbatim>\<open>__APPLE__ && WINDOWED\<close> is a boolean argument of the function it selects in. What the operating system answers (the
  result of \<^verbatim>\<open>fork\<close>, \<^verbatim>\<open>waitpid\<close>, \<^verbatim>\<open>mkdtemp\<close>, \<^verbatim>\<open>stat\<close>, ...) is an argument as well, and
  what the program asks of it is returned as a list of events. Allocation (\<^verbatim>\<open>malloc\<close>,
  \<^verbatim>\<open>calloc\<close>, \<^verbatim>\<open>strdup\<close>) is taken to succeed, and strings are taken to fit the
  \<^verbatim>\<open>PATH_MAX\<close>-sized buffers they are copied into.
\<close>

subsection \<open>Environment access\<close>

type_synonym environment = "string \<rightharpoonup> string"

text \<open>\<^verbatim>\<open>pyi_strjoin\<close>: each argument is a string or NULL; \<^verbatim>\<open>strlen\<close> of NULL counts as 0.\<close>

definition c_strlen :: "string option \<Rightarrow> nat" where
  "c_strlen s = (case s of None \<Rightarrow> 0 | Some cs \<Rightarrow> length cs)"

definition pyi_strjoin :: "string option \<Rightarrow> string option \<Rightarrow> string option \<Rightarrow> string" where
  "pyi_strjoin first sep second =
     (let first_len = c_strlen first;
          sep_len = c_strlen sep;
          second_len = c_strlen second;
          result = [];
          result = (if first_len \<noteq> 0 then result @ the first else result);
          result = (if sep_len \<noteq> 0 \<and> first_len \<noteq> 0 \<and> second_len \<noteq> 0
                    then result @ the sep else result);
          result = (if second_len \<noteq> 0 then result @ the second else result)
      in result)"

text \<open>
  \<^verbatim>\<open>pyi_getenv\<close>, POSIX branch: \<^verbatim>\<open>getenv\<close>, then
  \<^verbatim>\<open>(env && env[0]) ? strdup(env) : NULL\<close>. This is the value the caller receives; the
  pointer structure is modelled separately below.
\<close>

definition pyi_getenv :: "environment \<Rightarrow> string \<Rightarrow> string option" where
  "pyi_getenv env variable =
     (case env variable of
        None \<Rightarrow> None
      | Some v \<Rightarrow> (if v \<noteq> [] then Some v else None))"

text \<open>
  \<^verbatim>\<open>setenv(name, value, true)\<close> fails with \<^verbatim>\<open>EINVAL\<close> (returning -1, environment
  unchanged) for an empty name or a name containing \<^verbatim>\<open>=\<close>, and otherwise stores the value.
\<close>

definition setenv :: "environment \<Rightarrow> string \<Rightarrow> string \<Rightarrow> int \<times> environment" where
  "setenv env name val =
     (if name = [] \<or> CHR ''='' \<in> set name then (- 1, env) else (0, env(name \<mapsto> val)))"

definition unsetenv :: "environment \<Rightarrow> string \<Rightarrow> int \<times> environment" where
  "unsetenv env name =
     (if name = [] \<or> CHR ''='' \<in> set name then (- 1, env) else (0, env(name := None)))"

definition pyi_setenv :: "environment \<Rightarrow> string \<Rightarrow> string \<Rightarrow> int \<times> environment" where
  "pyi_setenv env variable val = setenv env variable val"

text \<open>\<^verbatim>\<open>pyi_unsetenv\<close>, POSIX branch: without \<^verbatim>\<open>HAVE_UNSETENV\<close> the variable is set to the empty string.\<close>

definition pyi_unsetenv :: "bool \<Rightarrow> environment \<Rightarrow> string \<Rightarrow> int \<times> environment" where
  "pyi_unsetenv have_unsetenv env variable =
     (if have_unsetenv then unsetenv env variable else setenv env variable [])"

text \<open>
  The pointer structure of \<^verbatim>\<open>pyi_getenv\<close> on POSIX. \<^verbatim>\<open>getenv\<close> answers a pointer into the
  live environment block, \<^verbatim>\<open>strdup\<close> allocates. Memory is a store of C strings by address;
  the environment maps a name to the address of its value; \<open>brk\<close> is the next address the
  allocator hands out.
\<close>

type_synonym addr = nat

record memory =
  heap :: "addr \<rightharpoonup> string"
  environ :: "string \<rightharpoonup> addr"
  brk :: addr

definition getenv :: "memory \<Rightarrow> string \<Rightarrow> addr option" where
  "getenv m name = environ m name"

definition strdup :: "memory \<Rightarrow> string \<Rightarrow> addr \<times> memory" where
  "strdup m s = (brk m, m\<lparr>heap := (heap m)(brk m \<mapsto> s), brk := Suc (brk m)\<rparr>)"

text \<open>
  \<^verbatim>\<open>return (env && env[0]) ? strdup(env) : NULL;\<close> An environment pointer always addresses a
  string (\<open>mem_ok\<close> below); the model answers NULL for one that does not.
\<close>

definition pyi_getenv_ptr :: "memory \<Rightarrow> string \<Rightarrow> addr option \<times> memory" where
  "pyi_getenv_ptr m variable =
     (case getenv m variable of
        None \<Rightarrow> (None, m)
      | Some env \<Rightarrow>
          (case heap m env of
             Some (c # cs) \<Rightarrow> (let (p, m') = strdup m (c # cs) in (Some p, m'))
           | _ \<Rightarrow> (None, m)))"

text \<open>Overwriting the string at an address, as a caller mutating a returned string does.\<close>

definition poke :: "memory \<Rightarrow> addr \<Rightarrow> string \<Rightarrow> memory" where
  "poke m p s = m\<lparr>heap := (heap m)(p \<mapsto> s)\<rparr>"

text \<open>The environment a memory holds, by value.\<close>

definition env_value :: "memory \<Rightarrow> environment" where
  "env_value m name = (case environ m name of None \<Rightarrow> None | Some p \<Rightarrow> heap m p)"

text \<open>Every environment pointer addresses a string, and every allocated address is below \<open>brk\<close>.\<close>

definition mem_ok :: "memory \<Rightarrow> bool" where
  "mem_ok m = ((\<forall>name p. environ m name = Some p \<longrightarrow> p \<in> dom (heap m))
               \<and> (\<forall>p \<in> dom (heap m). p < brk m))"

subsection \<open>Environment access on Windows\<close>

text \<open>
  The Windows primitives are not part of the repository; they are modelled by value, and
  the conversions between UTF-8 and wide strings (\<^verbatim>\<open>pyi_win32_utils_from_utf8\<close>,
  \<^verbatim>\<open>pyi_win32_utils_to_utf8\<close>) are the identity. \<^verbatim>\<open>GetEnvironmentVariableW\<close> answers the number
  of characters stored and the buffer; 0 when the variable does not exist or is empty.
\<close>

definition GetEnvironmentVariableW :: "environment \<Rightarrow> string \<Rightarrow> nat \<times> string" where
  "GetEnvironmentVariableW env name =
     (case env name of None \<Rightarrow> (0, []) | Some v \<Rightarrow> (length v, v))"

text \<open>
  \<^verbatim>\<open>ExpandEnvironmentStringsW\<close> replaces each \<^verbatim>\<open>%NAME%\<close> whose \<^verbatim>\<open>NAME\<close> is defined by its value
  and leaves any other text as it is; it answers the size of the result with its
  terminator, and the result.
\<close>

function expand_refs :: "environment \<Rightarrow> string \<Rightarrow> string" where
  "expand_refs env [] = []"
| "expand_refs env (c # cs) =
     (if c = CHR ''%'' then
        (case dropWhile (\<lambda>x. x \<noteq> CHR ''%'') cs of
           [] \<Rightarrow> c # cs
         | _ # rest \<Rightarrow>
             (case env (takeWhile (\<lambda>x. x \<noteq> CHR ''%'') cs) of
                Some v \<Rightarrow> v @ expand_refs env rest
              | None \<Rightarrow> c # expand_refs env cs))
      else c # expand_refs env cs)"
  by pat_completeness auto
termination
proof (relation "measure (\<lambda>(env, s). length s)")
  fix env :: environment and c :: char and cs x21 x22 x2
  assume "dropWhile (\<lambda>x. x \<noteq> CHR ''%'') cs = x21 # x22"
  then have "length (x21 # x22) \<le> length cs"
    by (metis length_dropWhile_le)
  then show "((env, x22), env, c # cs) \<in> measure (\<lambda>(env, s). length s)"
    by simp
qed auto

definition ExpandEnvironmentStringsW :: "environment \<Rightarrow> string \<Rightarrow> nat \<times> string" where
  "ExpandEnvironmentStringsW env src =
     (Suc (length (expand_refs env src)), expand_refs env src)"

text \<open>
  \<^verbatim>\<open>pyi_getenv\<close>, \<^verbatim>\<open>_WIN32\<close> branch. After a successful expansion into \<^verbatim>\<open>buf2\<close> the source
  assigns \<^verbatim>\<open>wenv = buf1\<close>.
\<close>

definition pyi_getenv_win32 :: "environment \<Rightarrow> string \<Rightarrow> string option" where
  "pyi_getenv_win32 env variable =
     (let (rc, buf1) = GetEnvironmentVariableW env variable;
          wenv = (if rc > 0 then
                    (let wenv = Some buf1;
                         (rc, buf2) = ExpandEnvironmentStringsW env buf1
                     in (if rc > 0 then Some buf1 else wenv))
                  else None)
      in case wenv of
           Some e \<Rightarrow> (if e \<noteq> [] then Some e else None)
         | None \<Rightarrow> None)"

text \<open>
  \<^verbatim>\<open>pyi_setenv\<close> and \<^verbatim>\<open>pyi_unsetenv\<close>, \<^verbatim>\<open>_WIN32\<close> branch. \<^verbatim>\<open>_wputenv_s\<close> answers \<^verbatim>\<open>EINVAL\<close> (22)
  for a bad name and removes the variable when the value is empty;
  \<^verbatim>\<open>SetEnvironmentVariableW(name, NULL)\<close> deletes the variable and answers non-zero.
\<close>

definition wputenv_s :: "environment \<Rightarrow> string \<Rightarrow> string \<Rightarrow> int \<times> environment" where
  "wputenv_s env name val =
     (if name = [] \<or> CHR ''='' \<in> set name then (22, env)
      else if val = [] then (0, env(name := None))
      else (0, env(name \<mapsto> val)))"

definition pyi_setenv_win32 :: "environment \<Rightarrow> string \<Rightarrow> string \<Rightarrow> int \<times> environment" where
  "pyi_setenv_win32 env variable val = wputenv_s env variable val"

definition pyi_unsetenv_win32 :: "environment \<Rightarrow> string \<Rightarrow> int \<times> environment" where
  "pyi_unsetenv_win32 env variable = (1, env(variable := None))"

subsection \<open>Dynamic-library path staging\<close>

text \<open>
  \<^verbatim>\<open>set_dynamic_library_path\<close>. The flag \<open>aix\<close> is the preprocessor symbol \<^verbatim>\<open>AIX\<close>. The
  return code is the one of the last \<^verbatim>\<open>pyi_setenv\<close>; the one of the first is dropped, as in
  the source.
\<close>

definition set_dynamic_library_path :: "bool \<Rightarrow> string \<Rightarrow> environment \<Rightarrow> int \<times> environment" where
  "set_dynamic_library_path aix path env =
     (let env_var = (if aix then ''LIBPATH'' else ''LD_LIBRARY_PATH'');
          env_var_orig = (if aix then ''LIBPATH_ORIG'' else ''LD_LIBRARY_PATH_ORIG'');
          orig_path = pyi_getenv env env_var;
          env = (case orig_path of
                   Some v \<Rightarrow> snd (pyi_setenv env env_var_orig v)
                 | None \<Rightarrow> env);
          new_path = pyi_strjoin (Some path) (Some '':'') orig_path
      in pyi_setenv env env_var new_path)"

text \<open>The names the stager works on, for stating its properties.\<close>

definition search_path_var :: "bool \<Rightarrow> string" where
  "search_path_var aix = (if aix then ''LIBPATH'' else ''LD_LIBRARY_PATH'')"

definition shadow_var :: "bool \<Rightarrow> string" where
  "shadow_var aix = search_path_var aix @ ''_ORIG''"

subsection \<open>Scratch directory manager\<close>

text \<open>
  The separator constants \<^verbatim>\<open>PYI_SEP\<close> and \<^verbatim>\<open>PYI_SEPSTR\<close> are declared in \<^verbatim>\<open>pyi_global.h\<close>,
  which is not among the sources; these are their POSIX values.
\<close>

definition PYI_SEP :: char where
  "PYI_SEP = CHR ''/''"

definition PYI_SEPSTR :: string where
  "PYI_SEPSTR = ''/''"

text \<open>
  What the scratch directory functions ask of the system: \<^verbatim>\<open>mkdtemp\<close> on a template with
  its answer, \<^verbatim>\<open>_wtempnam\<close> with the value of \<^verbatim>\<open>TMP\<close> at the call and the name it answers,
  \<^verbatim>\<open>_wmkdir\<close> on a name with its return code, the environment writes, and the fatal
  diagnostic.
\<close>

datatype tmp_event =
    Mkdtemp string "string option"
  | Wtempnam "string option" string
  | Wmkdir string int
  | Setenv string string
  | Unsetenv string
  | FatalError string

text \<open>
  \<^verbatim>\<open>mkdtemp\<close> is an answer of the system. It works on the buffer in place: for a template it
  either creates a directory and leaves its name in the buffer, or fails and leaves in the
  buffer whatever it had written there. \<^verbatim>\<open>pyi_test_temp_path\<close> appends the separator when the
  last character is not one, then the template suffix. (For an empty buffer the source
  reads \<^verbatim>\<open>buff[-1]\<close>; \<open>last []\<close> is as unspecified.)
\<close>

datatype mkdtemp_result = Created string | Failed string

type_synonym mkdtemp_os = "string \<Rightarrow> mkdtemp_result"

definition pyi_test_temp_path :: "mkdtemp_os \<Rightarrow> string \<Rightarrow> int \<times> string \<times> tmp_event list" where
  "pyi_test_temp_path mkdtemp buff =
     (let buff = (if last buff \<noteq> PYI_SEP then buff @ PYI_SEPSTR else buff);
          buff = buff @ ''_MEIXXXXXX''
      in case mkdtemp buff of
           Created made \<Rightarrow> (1, made, [Mkdtemp buff (Some made)])
         | Failed left \<Rightarrow> (0, left, [Mkdtemp buff None]))"

text \<open>
  The two loops of \<^verbatim>\<open>pyi_get_temp_path\<close> (POSIX) over the NULL-terminated arrays
  \<^verbatim>\<open>envname\<close> and \<^verbatim>\<open>dirname\<close>. Each answers the return flag (1 when the function returned
  from inside the loop), the buffer and the calls made.
\<close>

fun envname_loop ::
  "mkdtemp_os \<Rightarrow> environment \<Rightarrow> string list \<Rightarrow> string \<Rightarrow> int \<times> string \<times> tmp_event list" where
  "envname_loop mkdtemp env [] buff = (0, buff, [])"
| "envname_loop mkdtemp env (name # names) buff =
     (case pyi_getenv env name of
        Some p \<Rightarrow>
          (let (ok, buff, ev) = pyi_test_temp_path mkdtemp p
           in if ok \<noteq> 0 then (1, buff, ev)
              else (let (r, buff, ev') = envname_loop mkdtemp env names buff
                    in (r, buff, ev @ ev')))
      | None \<Rightarrow> envname_loop mkdtemp env names buff)"

fun dirname_loop ::
  "mkdtemp_os \<Rightarrow> string list \<Rightarrow> string \<Rightarrow> int \<times> string \<times> tmp_event list" where
  "dirname_loop mkdtemp [] buff = (0, buff, [])"
| "dirname_loop mkdtemp (d # ds) buff =
     (let (ok, buff, ev) = pyi_test_temp_path mkdtemp d
      in if ok \<noteq> 0 then (1, buff, ev)
         else (let (r, buff, ev') = dirname_loop mkdtemp ds buff
               in (r, buff, ev @ ev')))"

definition envname :: "string list" where
  "envname = [''TMPDIR'', ''TEMP'', ''TMP'']"

definition dirname :: "string list" where
  "dirname = [''/tmp'', ''/var/tmp'', ''/usr/tmp'']"

definition pyi_get_temp_path ::
  "mkdtemp_os \<Rightarrow> environment \<Rightarrow> string \<Rightarrow> string option \<Rightarrow> int \<times> string \<times> tmp_event list" where
  "pyi_get_temp_path mkdtemp env buff runtime_tmpdir =
     (case runtime_tmpdir of
        Some rt \<Rightarrow>
          (let (ok, buff, ev) = pyi_test_temp_path mkdtemp rt
           in if ok \<noteq> 0 then (1, buff, ev) else (0, buff, ev))
      | None \<Rightarrow>
          (let (r, buff, ev) = envname_loop mkdtemp env envname buff
           in if r \<noteq> 0 then (1, buff, ev)
              else (let (r, buff, ev') = dirname_loop mkdtemp dirname buff
                    in (r, buff, ev @ ev'))))"

text \<open>
  The Windows branch. \<^verbatim>\<open>swprintf(prefix, 16, L"_MEI%d", getpid())\<close> needs the decimal digits
  of the process id.
\<close>

function dec :: "nat \<Rightarrow> string" where
  "dec n = (if n < 10 then [char_of (48 + n)] else dec (n div 10) @ [char_of (48 + n mod 10)])"
  by pat_completeness auto
termination
  by (relation "measure id") auto

text \<open>
  The answers of the Windows system and of the path collaborator: \<^verbatim>\<open>pyi_path_fullpath\<close>,
  \<^verbatim>\<open>GetTempPathW\<close> (which reads the environment), \<^verbatim>\<open>getpid\<close>, \<^verbatim>\<open>_wtempnam\<close> (which reads the
  environment as well; the attempt number stands for the moment of the call) and
  \<^verbatim>\<open>_wmkdir\<close>.
\<close>

record win_os =
  pyi_path_fullpath :: "string \<Rightarrow> string"
  GetTempPathW :: "environment \<Rightarrow> string"
  getpid :: nat
  wtempnam :: "nat \<Rightarrow> environment \<Rightarrow> string \<Rightarrow> string \<Rightarrow> string"
  wmkdir :: "nat \<Rightarrow> string \<Rightarrow> int"

text \<open>
  \<^verbatim>\<open>for (i = 0; i < 5; i++)\<close>: generate a name, try to create it, return at the first
  success.
\<close>

function tempnam_loop ::
  "win_os \<Rightarrow> environment \<Rightarrow> string \<Rightarrow> string \<Rightarrow> nat \<Rightarrow> string option \<times> tmp_event list" where
  "tempnam_loop os env wchar_buffer prefix_w i =
     (if i < 5 then
        (let wchar_ret = wtempnam os i env wchar_buffer prefix_w;
             rc = wmkdir os i wchar_ret;
             ev = [Wtempnam (env ''TMP'') wchar_ret, Wmkdir wchar_ret rc]
         in if rc = 0 then (Some wchar_ret, ev)
            else (let (r, ev') = tempnam_loop os env wchar_buffer prefix_w (Suc i)
                  in (r, ev @ ev')))
      else (None, []))"
  by pat_completeness auto
termination
  by (relation "measure (\<lambda>(os, env, b, p, i). 5 - i)") auto

text \<open>
  The block that restores \<^verbatim>\<open>TMP\<close>; the source has it twice, before \<^verbatim>\<open>return 1\<close> and before
  \<^verbatim>\<open>return 0\<close>.
\<close>

definition restore_TMP :: "environment \<Rightarrow> string option \<Rightarrow> environment \<times> tmp_event list" where
  "restore_TMP env original_tmpdir =
     (case original_tmpdir of
        Some v \<Rightarrow> (snd (pyi_setenv_win32 env ''TMP'' v), [Setenv ''TMP'' v])
      | None \<Rightarrow> (snd (pyi_unsetenv_win32 env ''TMP''), [Unsetenv ''TMP'']))"

definition pyi_get_temp_path_win32 ::
  "win_os \<Rightarrow> environment \<Rightarrow> string \<Rightarrow> string option
     \<Rightarrow> int \<times> string \<times> environment \<times> tmp_event list" where
  "pyi_get_temp_path_win32 os env buffer runtime_tmpdir =
     (let original_tmpdir =
            (case runtime_tmpdir of Some rt \<Rightarrow> pyi_getenv_win32 env ''TMP'' | None \<Rightarrow> None);
          (env, ev0) =
            (case runtime_tmpdir of
               Some rt \<Rightarrow>
                 (let runtime_tmpdir_abspath = pyi_path_fullpath os rt
                  in (snd (pyi_setenv_win32 env ''TMP'' runtime_tmpdir_abspath),
                      [Setenv ''TMP'' runtime_tmpdir_abspath]))
             | None \<Rightarrow> (env, []));
          wchar_buffer = GetTempPathW os env;
          prefix_w = ''_MEI'' @ dec (getpid os);
          (found, ev1) = tempnam_loop os env wchar_buffer prefix_w 0;
          (env, ev2) =
            (case runtime_tmpdir of
               Some rt \<Rightarrow> restore_TMP env original_tmpdir
             | None \<Rightarrow> (env, []))
      in case found of
           Some wchar_ret \<Rightarrow> (1, wchar_ret, env, ev0 @ ev1 @ ev2)
         | None \<Rightarrow> (0, buffer, env, ev0 @ ev1 @ ev2))"

text \<open>
  The fields of \<^verbatim>\<open>ARCHIVE_STATUS\<close> that these functions use; the structure is declared in
  \<^verbatim>\<open>pyi_archive.h\<close>, which is not among the sources.
\<close>

record archive_status =
  has_temp_directory :: bool
  temppath :: string
  homepath :: string
  options :: "string \<rightharpoonup> string"

text \<open>
  Modelled from the spec: \<^verbatim>\<open>pyi_arch_get_option\<close> is defined in \<^verbatim>\<open>pyi_archive.c\<close>, which is not
  among the sources. The spec gives it as \<open>get_option(key: string) -> optional string\<close>: a
  lookup of the key among the options of the archive.
\<close>

definition pyi_arch_get_option :: "archive_status \<Rightarrow> string \<Rightarrow> string option" where
  "pyi_arch_get_option status key = options status key"

text \<open>
  The build target decides which \<^verbatim>\<open>pyi_get_temp_path\<close> is compiled; a target carries the
  answers of its system.
\<close>

datatype target = Posix mkdtemp_os | Win32 win_os

definition pyi_get_temp_path_on ::
  "target \<Rightarrow> environment \<Rightarrow> string \<Rightarrow> string option
     \<Rightarrow> int \<times> string \<times> environment \<times> tmp_event list" where
  "pyi_get_temp_path_on tgt env buff runtime_tmpdir =
     (case tgt of
        Posix mkdtemp \<Rightarrow>
          (let (r, buff, ev) = pyi_get_temp_path mkdtemp env buff runtime_tmpdir
           in (r, buff, env, ev))
      | Win32 os \<Rightarrow> pyi_get_temp_path_win32 os env buff runtime_tmpdir)"

text \<open>
  \<^verbatim>\<open>pyi_create_temp_path\<close>. \<^verbatim>\<open>pyi_get_temp_path\<close> writes into \<^verbatim>\<open>status->temppath\<close> whether it
  succeeds or not.
\<close>

definition pyi_create_temp_path ::
  "target \<Rightarrow> environment \<Rightarrow> archive_status
     \<Rightarrow> int \<times> archive_status \<times> environment \<times> tmp_event list" where
  "pyi_create_temp_path tgt env status =
     (if has_temp_directory status \<noteq> True then
        (let runtime_tmpdir = pyi_arch_get_option status ''pyi-runtime-tmpdir'';
             (ok, buff, env, ev) = pyi_get_temp_path_on tgt env (temppath status) runtime_tmpdir;
             status = status\<lparr>temppath := buff\<rparr>
         in if ok = 0
            then (- 1, status, env,
                  ev @ [FatalError ''INTERNAL ERROR: cannot create temporary directory!''])
            else (0, status\<lparr>has_temp_directory := True\<rparr>, env, ev))
      else (0, status, env, []))"

text \<open>
  For stating the properties: the template \<^verbatim>\<open>mkdtemp\<close> is called with for a candidate
  directory, the candidates in the order the spec gives them, the directory a call of
  \<^verbatim>\<open>mkdtemp\<close> made and the buffer it left, and the outcome of probing a list of candidates in
  order (return flag, buffer, calls).
\<close>

definition template :: "string \<Rightarrow> string" where
  "template p = (if last p \<noteq> CHR ''/'' then p @ ''/'' else p) @ ''_MEIXXXXXX''"

definition candidates :: "environment \<Rightarrow> string list" where
  "candidates env =
     List.map_filter (pyi_getenv env) [''TMPDIR'', ''TEMP'', ''TMP'']
       @ [''/tmp'', ''/var/tmp'', ''/usr/tmp'']"

fun made_by :: "mkdtemp_result \<Rightarrow> string option" where
  "made_by (Created made) = Some made"
| "made_by (Failed left) = None"

fun left_by :: "mkdtemp_result \<Rightarrow> string" where
  "left_by (Created made) = made"
| "left_by (Failed left) = left"

definition creatable :: "mkdtemp_os \<Rightarrow> string \<Rightarrow> bool" where
  "creatable mkdtemp c = (made_by (mkdtemp (template c)) \<noteq> None)"

definition probe_spec :: "mkdtemp_os \<Rightarrow> string list \<Rightarrow> string \<Rightarrow> int \<times> string \<times> tmp_event list" where
  "probe_spec mkdtemp cs buff =
     (case List.find (creatable mkdtemp) cs of
        Some c \<Rightarrow>
          (1, left_by (mkdtemp (template c)),
           map (\<lambda>c. Mkdtemp (template c) None) (takeWhile (\<lambda>c. \<not> creatable mkdtemp c) cs)
             @ [Mkdtemp (template c) (made_by (mkdtemp (template c)))])
      | None \<Rightarrow>
          (0, (if cs = [] then buff else left_by (mkdtemp (template (last cs)))),
           map (\<lambda>c. Mkdtemp (template c) None) cs))"

declare tempnam_loop.simps [simp del]

text \<open>
  The \<^verbatim>\<open>_wmkdir\<close> calls and the environment writes among the events, whether attempt \<open>i\<close> of
  the Windows loop succeeds, and the environment the Windows loop runs in.
\<close>

fun is_Wmkdir :: "tmp_event \<Rightarrow> bool" where
  "is_Wmkdir (Wmkdir n r) = True"
| "is_Wmkdir e = False"

definition attempt_ok :: "win_os \<Rightarrow> environment \<Rightarrow> string \<Rightarrow> string \<Rightarrow> nat \<Rightarrow> bool" where
  "attempt_ok os env wchar_buffer prefix_w i =
     (wmkdir os i (wtempnam os i env wchar_buffer prefix_w) = 0)"

declare dec.simps [simp del]

fun is_env_event :: "tmp_event \<Rightarrow> bool" where
  "is_env_event (Setenv n v) = True"
| "is_env_event (Unsetenv n) = True"
| "is_env_event e = False"

definition loop_env :: "win_os \<Rightarrow> environment \<Rightarrow> string option \<Rightarrow> environment" where
  "loop_env os env rt =
     (case rt of
        Some r \<Rightarrow> snd (pyi_setenv_win32 env ''TMP'' (pyi_path_fullpath os r))
      | None \<Rightarrow> env)"

subsection \<open>Recursive removal of the scratch directory\<close>










subsection \<open>Child process launcher\<close>

text \<open>
  The wait-status macros are those of \<^verbatim>\<open><sys/wait.h>\<close>, not of the repository. They are
  given for the usual encoding of a status: the low seven bits hold the terminating signal
  (0 for a normal exit, \<^verbatim>\<open>0x7f\<close> for a stopped child) and bits 8 to 15 the exit code.
\<close>

definition WTERMSIG :: "32 word \<Rightarrow> nat" where
  "WTERMSIG status = unat (status AND 0x7f)"

definition WIFEXITED :: "32 word \<Rightarrow> bool" where
  "WIFEXITED status = (WTERMSIG status = 0)"

definition WEXITSTATUS :: "32 word \<Rightarrow> int" where
  "WEXITSTATUS status = uint (drop_bit 8 (status AND 0xff00))"

definition WIFSIGNALED :: "32 word \<Rightarrow> bool" where
  "WIFSIGNALED status = (0 < WTERMSIG status \<and> WTERMSIG status < 0x7f)"

text \<open>
  The values the source passes to \<^verbatim>\<open>signal\<close>: the default disposition and the addresses of
  its two handlers, \<^verbatim>\<open>_signal_handler\<close> and \<^verbatim>\<open>_ignoring_signal_handler\<close>.
\<close>

datatype sighandler_t = SIG_DFL | Fn_signal_handler | Fn_ignoring_signal_handler

text \<open>
  What the launcher asks of the system, in order: a run of \<^verbatim>\<open>process_apple_events\<close>,
  \<^verbatim>\<open>execvp\<close> (with the environment it runs in), \<^verbatim>\<open>signal\<close>, \<^verbatim>\<open>kill\<close>, \<^verbatim>\<open>waitpid\<close>, the freeing of
  the argument copy, and \<^verbatim>\<open>raise\<close>.
\<close>

datatype sys_event =
    ProcessAppleEvents
  | Execvp string "string list" environment
  | Signal nat sighandler_t
  | Kill int nat
  | Waitpid int
  | FreeArgv "string list"
  | Raise nat

text \<open>
  How a run of \<^verbatim>\<open>pyi_utils_create_child\<close> ends: it returns a code; or the process image was
  replaced by \<^verbatim>\<open>execvp\<close> (the child branch); or the process was terminated by a signal (the
  one it raised against itself, or one delivered to it while it waited); or it waits for
  ever because the child never terminates.
\<close>

datatype outcome = Return int | Replaced | Killed nat | Blocked

text \<open>
  The build variant and the answers of the system in one run: whether this is the
  windowed macOS build (\<^verbatim>\<open>__APPLE__ && WINDOWED\<close>); the numbers of \<^verbatim>\<open>SIGCHLD\<close> and \<^verbatim>\<open>SIGCLD\<close>; the
  paths of the open-document events pending before the fork; what \<^verbatim>\<open>fork\<close> answers (negative
  on failure, 0 in the child, the child's pid in the parent); the child's own pid; what
  \<^verbatim>\<open>execvp\<close> answers when it returns (it returns only on failure, with a negative value); the
  signals delivered to the parent while it waits; the successive answers of \<^verbatim>\<open>waitpid\<close>, each
  a return value and a status (the windowed macOS build polls with \<^verbatim>\<open>WNOHANG\<close>, and an answer
  0 means the child has not terminated yet; the other builds make one blocking call);
  whether \<^verbatim>\<open>raise\<close> returns (the signal did not terminate the process); the signal numbers
  for which \<^verbatim>\<open>signal\<close> answers \<^verbatim>\<open>SIG_ERR\<close> and changes nothing (\<^verbatim>\<open>SIGKILL\<close> and \<^verbatim>\<open>SIGSTOP\<close>, which
  cannot be caught, and the numbers that are no signal, such as 0); and the signal numbers
  whose default action ends the process (a process that is stopped is taken to be
  continued).
\<close>

record launch_os =
  apple_windowed :: bool
  SIGCHLD :: nat
  SIGCLD :: nat
  pending_docs :: "string list"
  fork_result :: int
  child_getpid :: nat
  execvp_result :: int
  incoming :: "nat list"
  wait_answers :: "(int \<times> 32 word) list"
  raise_returns :: bool
  signal_refused :: "nat \<Rightarrow> bool"
  default_fatal :: "nat \<Rightarrow> bool"

text \<open>
  The state of the parent process that the launcher works on: the file-scope variables
  \<^verbatim>\<open>argv_pyi\<close> (\<^verbatim>\<open>argc_pyi\<close> is its length) and \<^verbatim>\<open>child_pid\<close>, the signal dispositions in force,
  and the events so far. \<open>proc0\<close> is the state at entry.
\<close>

record proc =
  argv_pyi :: "string list"
  child_pid :: int
  sigtable :: "nat \<Rightarrow> sighandler_t"
  trace :: "sys_event list"

definition proc0 :: proc where
  "proc0 = \<lparr>argv_pyi = [], child_pid = 0, sigtable = (\<lambda>signum. SIG_DFL), trace = []\<rparr>"

definition emit :: "sys_event \<Rightarrow> proc \<Rightarrow> proc" where
  "emit e p = p\<lparr>trace := trace p @ [e]\<rparr>"

text \<open>
  \<^verbatim>\<open>set_systemd_env\<close>, run in the child before \<^verbatim>\<open>execvp\<close>.
\<close>

definition set_systemd_env :: "environment \<Rightarrow> nat \<Rightarrow> int \<times> environment" where
  "set_systemd_env env pid =
     (if pyi_getenv env ''LISTEN_PID'' \<noteq> None
      then pyi_setenv env ''LISTEN_PID'' (dec pid)
      else (0, env))"

text \<open>
  The two handlers (\<^verbatim>\<open>_ignoring_signal_handler\<close> only logs). \<^verbatim>\<open>signal\<close> sets the disposition
  unless the system refuses the number; the source does not read what \<^verbatim>\<open>signal\<close> returns, so
  a refused call is an event like any other and the disposition stays as it was. The
  delivery of a signal to the process: the handler in the table runs; under the default
  disposition the process ends (\<open>None\<close>) when the default action of the signal is to end
  it, and nothing happens otherwise. \<open>deliver_all\<close> delivers the signals in turn and
  answers the signal that ended the process, if one did.
\<close>

definition ignoring_signal_handler :: "nat \<Rightarrow> proc \<Rightarrow> proc" where
  "ignoring_signal_handler signum p = p"

definition signal_handler :: "nat \<Rightarrow> proc \<Rightarrow> proc" where
  "signal_handler signum p = emit (Kill (child_pid p) signum) p"

definition signal :: "launch_os \<Rightarrow> nat \<Rightarrow> sighandler_t \<Rightarrow> proc \<Rightarrow> proc" where
  "signal os signum handler p =
     emit (Signal signum handler)
       (if signal_refused os signum then p
        else p\<lparr>sigtable := (sigtable p)(signum := handler)\<rparr>)"

definition deliver :: "launch_os \<Rightarrow> nat \<Rightarrow> proc \<Rightarrow> proc option" where
  "deliver os signum p =
     (case sigtable p signum of
        SIG_DFL \<Rightarrow> (if default_fatal os signum then None else Some p)
      | Fn_signal_handler \<Rightarrow> Some (signal_handler signum p)
      | Fn_ignoring_signal_handler \<Rightarrow> Some (ignoring_signal_handler signum p))"

fun deliver_all :: "launch_os \<Rightarrow> nat list \<Rightarrow> proc \<Rightarrow> nat option \<times> proc" where
  "deliver_all os [] p = (None, p)"
| "deliver_all os (signum # rest) p =
     (case deliver os signum p of
        None \<Rightarrow> (Some signum, p)
      | Some p' \<Rightarrow> deliver_all os rest p')"

text \<open>
  \<^verbatim>\<open>strstr\<close> answers the offset of the first occurrence, or NULL. The loop that copies
  \<^verbatim>\<open>argv\<close> into \<^verbatim>\<open>argv_pyi\<close> skips an argument on the windowed macOS build when
  \<^verbatim>\<open>strstr(argv[i], "-psn") == argv[i]\<close>. \<^verbatim>\<open>argc\<close> is the length of \<^verbatim>\<open>argv\<close>.
\<close>

fun strstr :: "string \<Rightarrow> string \<Rightarrow> nat option" where
  "strstr [] needle = (if needle = [] then Some 0 else None)"
| "strstr (c # cs) needle =
     (if prefix needle (c # cs) then Some 0 else map_option Suc (strstr cs needle))"

fun copy_args :: "bool \<Rightarrow> string list \<Rightarrow> proc \<Rightarrow> proc" where
  "copy_args aw [] p = p"
| "copy_args aw (a # argv) p =
     (if aw \<and> strstr a ''-psn'' = Some 0
      then copy_args aw argv p
      else copy_args aw argv (p\<lparr>argv_pyi := argv_pyi p @ [a]\<rparr>))"

text \<open>
  \<^verbatim>\<open>process_apple_events\<close>, as far as the launcher's state goes: while \<^verbatim>\<open>child_pid\<close> is 0 the
  paths of the pending open-document events are appended to \<^verbatim>\<open>argv_pyi\<close>; afterwards events
  are forwarded to the child and the state is unchanged.
\<close>

definition process_apple_events :: "launch_os \<Rightarrow> proc \<Rightarrow> proc" where
  "process_apple_events os p =
     emit ProcessAppleEvents
       (if child_pid p = 0 then p\<lparr>argv_pyi := argv_pyi p @ pending_docs os\<rparr> else p)"

text \<open>
  The two loops over the signal numbers, \<^verbatim>\<open>for (signum = 0; signum < num_signals; ++signum)\<close>.
\<close>

definition num_signals :: nat where
  "num_signals = 65"

function install_loop :: "launch_os \<Rightarrow> sighandler_t \<Rightarrow> nat \<Rightarrow> proc \<Rightarrow> proc" where
  "install_loop os handler signum p =
     (if signum < num_signals
      then install_loop os handler (Suc signum)
             (if signum \<noteq> SIGCHLD os \<and> signum \<noteq> SIGCLD os then signal os signum handler p
              else p)
      else p)"
  by pat_completeness auto
termination
  by (relation "measure (\<lambda>(os, handler, signum, p). num_signals - signum)") auto

function restore_loop :: "launch_os \<Rightarrow> nat \<Rightarrow> proc \<Rightarrow> proc" where
  "restore_loop os signum p =
     (if signum < num_signals
      then restore_loop os (Suc signum) (signal os signum SIG_DFL p)
      else p)"
  by pat_completeness auto
termination
  by (relation "measure (\<lambda>(os, signum, p). num_signals - signum)") auto

text \<open>
  Waiting for the child: the polling loop of the windowed macOS build,
  \<^verbatim>\<open>do { ... } while (!wait_rc)\<close>, and the single blocking \<^verbatim>\<open>waitpid\<close> of the other builds. The
  answer is \<open>None\<close> when the child never terminates.
\<close>

fun wait_loop :: "launch_os \<Rightarrow> (int \<times> 32 word) list \<Rightarrow> proc \<Rightarrow> (int \<times> 32 word) option \<times> proc" where
  "wait_loop os [] p = (None, emit (Waitpid (child_pid p)) p)"
| "wait_loop os ((wait_rc, rc) # answers) p =
     (if wait_rc = 0
      then wait_loop os answers (process_apple_events os (emit (Waitpid (child_pid p)) p))
      else (Some (wait_rc, rc), emit (Waitpid (child_pid p)) p))"

definition waitpid :: "(int \<times> 32 word) list \<Rightarrow> proc \<Rightarrow> (int \<times> 32 word) option \<times> proc" where
  "waitpid answers p =
     (case answers of
        [] \<Rightarrow> (None, emit (Waitpid (child_pid p)) p)
      | answer # _ \<Rightarrow> (Some answer, emit (Waitpid (child_pid p)) p))"

text \<open>
  The code from the label \<^verbatim>\<open>cleanup\<close> to the end of the function.
\<close>

definition cleanup :: "launch_os \<Rightarrow> int \<Rightarrow> 32 word \<Rightarrow> proc \<Rightarrow> outcome \<times> proc" where
  "cleanup os wait_rc rc p =
     (let p = emit (FreeArgv (argv_pyi p)) p
      in if wait_rc < 0 then (Return 1, p)
         else if WIFEXITED rc then (Return (WEXITSTATUS rc), p)
         else if WIFSIGNALED rc
         then (if raise_returns os then Return 1 else Killed (WTERMSIG rc),
               emit (Raise (WTERMSIG rc)) p)
         else (Return 1, p))"

text \<open>
  \<^verbatim>\<open>pyi_utils_create_child\<close> (POSIX branch). The signals that arrive while the parent waits
  are delivered after the handlers are installed; when one of them ends the parent, the
  run ends there.
\<close>

definition pyi_utils_create_child ::
  "launch_os \<Rightarrow> environment \<Rightarrow> string \<Rightarrow> archive_status \<Rightarrow> string list \<Rightarrow> outcome \<times> proc" where
  "pyi_utils_create_child os env thisfile status argv =
     (let wait_rc = - 1;
          p = copy_args (apple_windowed os) argv proc0;
          p = (if apple_windowed os then process_apple_events os p else p);
          pid = fork_result os
      in if pid < 0 then cleanup os wait_rc 0 p
         else if pid = 0 then
           (let env = snd (set_systemd_env env (child_getpid os));
                p = emit (Execvp thisfile (argv_pyi p) env) p
            in if execvp_result os < 0 then cleanup os wait_rc 0 p else (Replaced, p))
         else
           (let p = p\<lparr>child_pid := pid\<rparr>;
                ignore_signals =
                  (pyi_arch_get_option status ''pyi-bootloader-ignore-signals'' \<noteq> None);
                handler = (if ignore_signals then Fn_ignoring_signal_handler
                           else Fn_signal_handler);
                p = install_loop os handler 0 p;
                (fatal, p) = deliver_all os (incoming os) p
            in case fatal of
                 Some signum \<Rightarrow> (Killed signum, p)
               | None \<Rightarrow>
                   (let (answer, p) =
                          (if apple_windowed os then wait_loop os (wait_answers os) p
                           else waitpid (wait_answers os) p)
                    in case answer of
                         None \<Rightarrow> (Blocked, p)
                       | Some (wait_rc, rc) \<Rightarrow>
                           cleanup os wait_rc rc (restore_loop os 0 p))))"

declare install_loop.simps [simp del] restore_loop.simps [simp del]

text \<open>
  For stating the properties: the signal numbers the install loop covers; those among
  them for which the system accepts a handler; the answer of \<^verbatim>\<open>waitpid\<close> with which the wait
  of the parent ends (there is none when a signal that arrives first ends the parent, or
  when the child never terminates); the kinds of events; the argument vector the child is
  started with; and the state of the process just before \<^verbatim>\<open>fork\<close>.
\<close>

definition handled :: "launch_os \<Rightarrow> nat \<Rightarrow> bool" where
  "handled os signum = (signum < 65 \<and> signum \<noteq> SIGCHLD os \<and> signum \<noteq> SIGCLD os)"

definition caught :: "launch_os \<Rightarrow> nat \<Rightarrow> bool" where
  "caught os signum = (handled os signum \<and> \<not> signal_refused os signum)"

definition reaped :: "launch_os \<Rightarrow> (int \<times> 32 word) option" where
  "reaped os =
     (if list_ex (\<lambda>signum. default_fatal os signum \<and> \<not> caught os signum) (incoming os)
      then None
      else if apple_windowed os
      then List.find (\<lambda>answer. fst answer \<noteq> 0) (wait_answers os)
      else (case wait_answers os of [] \<Rightarrow> None | answer # _ \<Rightarrow> Some answer))"

fun is_Signal :: "sys_event \<Rightarrow> bool" where
  "is_Signal (Signal signum handler) = True"
| "is_Signal e = False"

fun is_Kill :: "sys_event \<Rightarrow> bool" where
  "is_Kill (Kill pid signum) = True"
| "is_Kill e = False"

fun is_Raise :: "sys_event \<Rightarrow> bool" where
  "is_Raise (Raise signum) = True"
| "is_Raise e = False"

fun is_Execvp :: "sys_event \<Rightarrow> bool" where
  "is_Execvp (Execvp file args env) = True"
| "is_Execvp e = False"

fun is_wait_event :: "sys_event \<Rightarrow> bool" where
  "is_wait_event (Waitpid pid) = True"
| "is_wait_event ProcessAppleEvents = True"
| "is_wait_event e = False"

definition child_argv :: "launch_os \<Rightarrow> string list \<Rightarrow> string list" where
  "child_argv os argv =
     filter (\<lambda>a. \<not> (apple_windowed os \<and> prefix ''-psn'' a)) argv
       @ (if apple_windowed os then pending_docs os else [])"

definition before_fork :: "launch_os \<Rightarrow> string list \<Rightarrow> proc" where
  "before_fork os argv =
     \<lparr>argv_pyi = child_argv os argv, child_pid = 0, sigtable = (\<lambda>signum. SIG_DFL),
      trace = (if apple_windowed os then [ProcessAppleEvents] else [])\<rparr>"

section \<open>Properties\<close>

subsection \<open>Dynamic-library path staging\<close>

lemma shadow_var_neq: "shadow_var aix \<noteq> search_path_var aix"
  by (simp add: shadow_var_def)

lemma pyi_strjoin_Some:
  "pyi_strjoin (Some a) (Some s) (Some b) = (if a = [] \<or> b = [] \<or> s = [] then a @ b else a @ s @ b)"
  by (simp add: pyi_strjoin_def c_strlen_def Let_def)

lemma pyi_strjoin_None:
  "pyi_strjoin (Some a) (Some s) None = a"
  by (simp add: pyi_strjoin_def c_strlen_def Let_def)

text \<open>
  Claim C2, as stated, asks that after staging the variable holds the path, the separator
  and the prior value \<open>V\<close> (just the path when \<open>V\<close> was absent or empty), and that the shadow
  variable holds \<open>V\<close> whenever \<open>V\<close> was present. The code differs at two inputs. With the
  variable present but empty, \<^verbatim>\<open>pyi_getenv\<close> answers NULL and the shadow variable is not
  written. With an empty path and a non-empty prior value, \<^verbatim>\<open>pyi_strjoin\<close> leaves the
  separator out.
\<close>

theorem set_dynamic_library_path_counterexample:
  "snd (set_dynamic_library_path False ''/app'' [''LD_LIBRARY_PATH'' \<mapsto> ''''])
       ''LD_LIBRARY_PATH_ORIG'' \<noteq> Some ''''
   \<and> snd (set_dynamic_library_path False '''' [''LD_LIBRARY_PATH'' \<mapsto> ''/usr/lib''])
       ''LD_LIBRARY_PATH'' \<noteq> Some ('''' @ '':'' @ ''/usr/lib'')"
  by (simp add: set_dynamic_library_path_def pyi_getenv_def pyi_setenv_def setenv_def
      pyi_strjoin_def c_strlen_def Let_def)

text \<open>
  Claim C2, amended: with \<open>V\<close> the prior value of the search-path variable, staging a
  non-empty path leaves the variable holding the path, \<^verbatim>\<open>:\<close> and \<open>V\<close> when \<open>V\<close> was present and
  non-empty, and just the path when \<open>V\<close> was absent or empty; staging an empty path leaves it
  holding \<open>V\<close> alone. The shadow variable holds exactly \<open>V\<close> when \<open>V\<close> was present and
  non-empty and keeps its old state (it is not created) when \<open>V\<close> was absent or empty. The
  call returns 0.
\<close>

theorem set_dynamic_library_path_round_trip:
  "fst (set_dynamic_library_path aix path env) = 0
   \<and> snd (set_dynamic_library_path aix path env) (search_path_var aix) =
       (case env (search_path_var aix) of
          None \<Rightarrow> Some path
        | Some V \<Rightarrow> Some (if V = [] then path else if path = [] then V else path @ '':'' @ V))
   \<and> snd (set_dynamic_library_path aix path env) (shadow_var aix) =
       (case env (search_path_var aix) of
          None \<Rightarrow> env (shadow_var aix)
        | Some V \<Rightarrow> (if V = [] then env (shadow_var aix) else Some V))"
  by (cases aix)
     (simp_all add: set_dynamic_library_path_def pyi_getenv_def pyi_setenv_def setenv_def
        pyi_strjoin_Some pyi_strjoin_None search_path_var_def shadow_var_def Let_def
        split: option.splits)

subsection \<open>Environment access\<close>

lemma pyi_getenv_win32_eq: "pyi_getenv_win32 env v = pyi_getenv env v"
  by (simp add: pyi_getenv_win32_def pyi_getenv_def GetEnvironmentVariableW_def
      ExpandEnvironmentStringsW_def split: option.splits)

lemma pyi_getenv_ptr_value:
  "mem_ok m \<Longrightarrow>
   (case fst (pyi_getenv_ptr m v) of
      None \<Rightarrow> None
    | Some p \<Rightarrow> heap (snd (pyi_getenv_ptr m v)) p) = pyi_getenv (env_value m) v"
  by (auto simp: pyi_getenv_ptr_def getenv_def strdup_def env_value_def pyi_getenv_def
      mem_ok_def split: option.splits list.splits)

text \<open>
  Claim C3: \<^verbatim>\<open>pyi_getenv\<close> answers NULL when the variable is unset and when it is set to the
  empty string (on POSIX and on Windows). When it answers a pointer, the pointer is a fresh
  address: it was not allocated before and no environment entry points to it; it holds a
  copy of the value; and whatever is later written through it, every variable of the
  environment reads as before.
\<close>

theorem pyi_getenv_absent_or_fresh_copy:
  assumes "mem_ok m"
  shows "(env_value m v = None \<or> env_value m v = Some [] \<longrightarrow> fst (pyi_getenv_ptr m v) = None)
    \<and> (env v = None \<or> env v = Some [] \<longrightarrow> pyi_getenv_win32 env v = None)
    \<and> (\<forall>p. fst (pyi_getenv_ptr m v) = Some p \<longrightarrow>
          p \<notin> dom (heap m) \<and> p \<notin> ran (environ m)
          \<and> heap (snd (pyi_getenv_ptr m v)) p = env_value m v
          \<and> env_value (snd (pyi_getenv_ptr m v)) = env_value m
          \<and> (\<forall>s. env_value (poke (snd (pyi_getenv_ptr m v)) p s) = env_value m))"
proof (intro conjI)
  show "env_value m v = None \<or> env_value m v = Some [] \<longrightarrow> fst (pyi_getenv_ptr m v) = None"
    using assms
    by (auto simp: pyi_getenv_ptr_def getenv_def env_value_def mem_ok_def
        split: option.splits list.splits)
  show "env v = None \<or> env v = Some [] \<longrightarrow> pyi_getenv_win32 env v = None"
    by (auto simp: pyi_getenv_win32_eq pyi_getenv_def)
  show "\<forall>p. fst (pyi_getenv_ptr m v) = Some p \<longrightarrow>
          p \<notin> dom (heap m) \<and> p \<notin> ran (environ m)
          \<and> heap (snd (pyi_getenv_ptr m v)) p = env_value m v
          \<and> env_value (snd (pyi_getenv_ptr m v)) = env_value m
          \<and> (\<forall>s. env_value (poke (snd (pyi_getenv_ptr m v)) p s) = env_value m)"
    using assms
    by (auto simp: pyi_getenv_ptr_def getenv_def strdup_def env_value_def mem_ok_def
        poke_def ran_def fun_eq_iff split: option.splits list.splits)
qed

theorem pyi_getenv_absent_or_fresh_copy_witness:
  "mem_ok \<lparr>heap = [0 \<mapsto> ''/lib'', 1 \<mapsto> ''''], environ = [''P'' \<mapsto> 0, ''E'' \<mapsto> 1], brk = 2\<rparr>
   \<and> fst (pyi_getenv_ptr
        \<lparr>heap = [0 \<mapsto> ''/lib'', 1 \<mapsto> ''''], environ = [''P'' \<mapsto> 0, ''E'' \<mapsto> 1], brk = 2\<rparr> ''P'')
       = Some 2
   \<and> fst (pyi_getenv_ptr
        \<lparr>heap = [0 \<mapsto> ''/lib'', 1 \<mapsto> ''''], environ = [''P'' \<mapsto> 0, ''E'' \<mapsto> 1], brk = 2\<rparr> ''E'')
       = None
   \<and> env_value (poke (snd (pyi_getenv_ptr
        \<lparr>heap = [0 \<mapsto> ''/lib'', 1 \<mapsto> ''''], environ = [''P'' \<mapsto> 0, ''E'' \<mapsto> 1], brk = 2\<rparr> ''P''))
        2 ''overwritten'') ''P'' = Some ''/lib''"
proof -
  let ?m = "\<lparr>heap = [0 \<mapsto> ''/lib'', 1 \<mapsto> ''''], environ = [''P'' \<mapsto> 0, ''E'' \<mapsto> 1], brk = 2\<rparr>"
  have ok: "mem_ok ?m"
    by (auto simp: mem_ok_def split: if_splits)
  have ret: "fst (pyi_getenv_ptr ?m ''P'') = Some 2"
    by (simp add: pyi_getenv_ptr_def getenv_def strdup_def)
  have val: "env_value ?m ''P'' = Some ''/lib''" and emp: "env_value ?m ''E'' = Some ''''"
    by (simp_all add: env_value_def)
  from pyi_getenv_absent_or_fresh_copy [OF ok, of "''P''" Map.empty] ret val
  have "env_value (poke (snd (pyi_getenv_ptr ?m ''P'')) 2 ''overwritten'') ''P'' = Some ''/lib''"
    by simp
  moreover from pyi_getenv_absent_or_fresh_copy [OF ok, of "''E''" Map.empty] emp
  have "fst (pyi_getenv_ptr ?m ''E'') = None"
    by simp
  ultimately show ?thesis using ok ret by simp
qed

text \<open>
  Claim C4 asks that on Windows \<^verbatim>\<open>pyi_getenv\<close> answers the value with its \<^verbatim>\<open>%VAR%\<close>
  references expanded. The source computes the expansion into \<^verbatim>\<open>buf2\<close> and then answers
  \<^verbatim>\<open>buf1\<close>: with \<^verbatim>\<open>FOO=%BAR%\<close> and \<^verbatim>\<open>BAR=x\<close> the expansion of the value is \<^verbatim>\<open>x\<close>, and
  \<^verbatim>\<open>pyi_getenv("FOO")\<close> answers \<^verbatim>\<open>%BAR%\<close>.
\<close>

theorem pyi_getenv_win32_discards_expansion:
  "ExpandEnvironmentStringsW [''FOO'' \<mapsto> ''%BAR%'', ''BAR'' \<mapsto> ''x''] ''%BAR%'' = (2, ''x'')
   \<and> pyi_getenv_win32 [''FOO'' \<mapsto> ''%BAR%'', ''BAR'' \<mapsto> ''x''] ''FOO'' = Some ''%BAR%''"
  by (simp add: pyi_getenv_win32_def GetEnvironmentVariableW_def ExpandEnvironmentStringsW_def)

subsection \<open>Scratch directory manager\<close>

lemma pyi_test_temp_path_eq:
  "pyi_test_temp_path mk p =
     (case mk (template p) of
        Created made \<Rightarrow> (1, made, [Mkdtemp (template p) (Some made)])
      | Failed left \<Rightarrow> (0, left, [Mkdtemp (template p) None]))"
  by (auto simp: pyi_test_temp_path_def template_def PYI_SEP_def PYI_SEPSTR_def Let_def
      split: mkdtemp_result.splits)

lemma probe_spec_Nil: "probe_spec mk [] buff = (0, buff, [])"
  by (simp add: probe_spec_def)

lemma probe_spec_Cons:
  "probe_spec mk (c # cs) buff =
     (case mk (template c) of
        Created made \<Rightarrow> (1, made, [Mkdtemp (template c) (Some made)])
      | Failed left \<Rightarrow> (let (r, b, ev) = probe_spec mk cs left
                     in (r, b, Mkdtemp (template c) None # ev)))"
  by (auto simp: probe_spec_def creatable_def split: option.splits mkdtemp_result.splits)

lemma dirname_loop_spec: "dirname_loop mk ds buff = probe_spec mk ds buff"
  by (induction ds arbitrary: buff)
     (auto simp: probe_spec_Nil probe_spec_Cons pyi_test_temp_path_eq
        split: mkdtemp_result.splits)

lemma envname_loop_spec:
  "envname_loop mk env names buff = probe_spec mk (List.map_filter (pyi_getenv env) names) buff"
  by (induction names arbitrary: buff)
     (auto simp: probe_spec_Nil probe_spec_Cons pyi_test_temp_path_eq
        split: option.splits mkdtemp_result.splits)

lemma probe_spec_append:
  "probe_spec mk (xs @ ys) buff =
     (let (r, b, ev) = probe_spec mk xs buff
      in if r \<noteq> 0 then (1, b, ev)
         else (let (r, b, ev') = probe_spec mk ys b in (r, b, ev @ ev')))"
  by (induction xs arbitrary: buff)
     (auto simp: probe_spec_Nil probe_spec_Cons
        split: option.splits prod.splits mkdtemp_result.splits)

lemma pyi_get_temp_path_spec:
  "pyi_get_temp_path mk env buff None = probe_spec mk (candidates env) buff"
  by (simp add: pyi_get_temp_path_def candidates_def envname_loop_spec dirname_loop_spec
      probe_spec_append envname_def dirname_def split: prod.splits)

lemma tempnam_loop_done: "5 \<le> i \<Longrightarrow> tempnam_loop os env b p i = (None, [])"
  by (subst tempnam_loop.simps) simp

lemma tempnam_loop_step:
  "i < 5 \<Longrightarrow>
   tempnam_loop os env b p i =
     (if attempt_ok os env b p i
      then (Some (wtempnam os i env b p),
            [Wtempnam (env ''TMP'') (wtempnam os i env b p), Wmkdir (wtempnam os i env b p) 0])
      else (fst (tempnam_loop os env b p (Suc i)),
            [Wtempnam (env ''TMP'') (wtempnam os i env b p),
             Wmkdir (wtempnam os i env b p) (wmkdir os i (wtempnam os i env b p))]
              @ snd (tempnam_loop os env b p (Suc i))))"
  by (subst tempnam_loop.simps) (simp add: attempt_ok_def Let_def split: prod.splits)

lemma tempnam_loop_find:
  "i \<le> 5 \<Longrightarrow>
   fst (tempnam_loop os env b p i) =
     map_option (\<lambda>j. wtempnam os j env b p) (List.find (attempt_ok os env b p) [i..<5])
   \<and> length (filter is_Wmkdir (snd (tempnam_loop os env b p i))) =
       (case List.find (attempt_ok os env b p) [i..<5] of Some j \<Rightarrow> Suc j - i | None \<Rightarrow> 5 - i)
   \<and> (\<forall>e \<in> set (snd (tempnam_loop os env b p i)).
         case e of Wtempnam t n \<Rightarrow> t = env ''TMP'' | Wmkdir n r \<Rightarrow> True | _ \<Rightarrow> False)"
proof (induction "5 - i" arbitrary: i)
  case 0
  then have "i = 5" by simp
  then show ?case by (simp add: tempnam_loop_done)
next
  case (Suc k)
  then have lt: "i < 5" and k: "k = 5 - Suc i" and le: "Suc i \<le> 5" by simp_all
  have upt: "[i..<5] = i # [Suc i..<5]"
    using lt by (simp add: upt_conv_Cons)
  note IH = Suc.hyps(1) [OF k le]
  show ?case
  proof (cases "attempt_ok os env b p i")
    case True
    then show ?thesis by (simp add: tempnam_loop_step [OF lt] upt)
  next
    case False
    have "\<And>j. List.find (attempt_ok os env b p) [Suc i..<5] = Some j \<Longrightarrow> Suc i \<le> j"
      by (auto simp: find_Some_iff)
    moreover have "Suc (4 - i) = 5 - i"
      using lt by simp
    ultimately show ?thesis
      using False IH
      by (auto simp: tempnam_loop_step [OF lt] upt Suc_diff_le split: option.splits)
  qed
qed


lemma tempnam_loop_created:
  "i \<le> 5 \<Longrightarrow> fst (tempnam_loop os env b p i) = Some d
     \<Longrightarrow> Wmkdir d 0 \<in> set (snd (tempnam_loop os env b p i))"
proof (induction "5 - i" arbitrary: i)
  case 0
  then show ?case by (simp add: tempnam_loop_done)
next
  case (Suc k)
  then have lt: "i < 5" and k: "k = 5 - Suc i" and le: "Suc i \<le> 5" by simp_all
  show ?case
  proof (cases "attempt_ok os env b p i")
    case True
    with Suc.prems show ?thesis by (auto simp: tempnam_loop_step [OF lt])
  next
    case False
    with Suc.prems have "fst (tempnam_loop os env b p (Suc i)) = Some d"
      by (simp add: tempnam_loop_step [OF lt])
    from Suc.hyps(1) [OF k le this] False show ?thesis
      by (simp add: tempnam_loop_step [OF lt])
  qed
qed

lemma tempnam_loop_events:
  "e \<in> set (snd (tempnam_loop os env b p 0)) \<Longrightarrow>
     (case e of Wtempnam t n \<Rightarrow> t = env ''TMP'' | Wmkdir n r \<Rightarrow> True | _ \<Rightarrow> False)"
  using tempnam_loop_find [of 0 os env b p] by simp

lemma tempnam_loop_no_env_event:
  "filter is_env_event (snd (tempnam_loop os env b p 0)) = []"
proof -
  have "\<not> is_env_event e" if "e \<in> set (snd (tempnam_loop os env b p 0))" for e
    using tempnam_loop_events [OF that] by (cases e) simp_all
  then show ?thesis by (simp add: filter_empty_conv)
qed

lemma probe_spec_created:
  "fst (probe_spec mk cs buff) \<noteq> 0 \<Longrightarrow>
     \<exists>tmpl. Mkdtemp tmpl (Some (fst (snd (probe_spec mk cs buff))))
               \<in> set (snd (snd (probe_spec mk cs buff)))"
proof (cases "List.find (creatable mk) cs")
  case None
  then show "fst (probe_spec mk cs buff) \<noteq> 0 \<Longrightarrow> ?thesis"
    by (simp add: probe_spec_def)
next
  case (Some c)
  then have "creatable mk c"
    by (auto simp: find_Some_iff)
  then obtain d where "mk (template c) = Created d"
    by (cases "mk (template c)") (auto simp: creatable_def)
  with Some show ?thesis
    by (auto simp: probe_spec_def)
qed

lemma pyi_get_temp_path_created:
  "fst (pyi_get_temp_path mk env buff rt) \<noteq> 0 \<Longrightarrow>
     \<exists>tmpl. Mkdtemp tmpl (Some (fst (snd (pyi_get_temp_path mk env buff rt))))
               \<in> set (snd (snd (pyi_get_temp_path mk env buff rt)))"
proof (cases rt)
  case None
  then show "fst (pyi_get_temp_path mk env buff rt) \<noteq> 0 \<Longrightarrow> ?thesis"
    using probe_spec_created [of mk "candidates env" buff]
    by (simp add: pyi_get_temp_path_spec)
next
  case (Some r)
  then show "fst (pyi_get_temp_path mk env buff rt) \<noteq> 0 \<Longrightarrow> ?thesis"
    by (auto simp: pyi_get_temp_path_def pyi_test_temp_path_eq split: mkdtemp_result.splits)
qed

lemma pyi_get_temp_path_ret: "fst (pyi_get_temp_path mk env buff rt) \<in> {0, 1}"
proof (cases rt)
  case None
  then show ?thesis
    by (simp add: pyi_get_temp_path_spec probe_spec_def split: option.splits)
next
  case (Some r)
  then show ?thesis
    by (auto simp: pyi_get_temp_path_def pyi_test_temp_path_eq split: mkdtemp_result.splits)
qed

lemma pyi_get_temp_path_win32_unfold:
  "pyi_get_temp_path_win32 os env buff rt =
     (case fst (tempnam_loop os (loop_env os env rt) (GetTempPathW os (loop_env os env rt))
                  (''_MEI'' @ dec (getpid os)) 0) of
        Some d \<Rightarrow> 1
      | None \<Rightarrow> 0,
      case fst (tempnam_loop os (loop_env os env rt) (GetTempPathW os (loop_env os env rt))
                  (''_MEI'' @ dec (getpid os)) 0) of
        Some d \<Rightarrow> d
      | None \<Rightarrow> buff,
      case rt of
        Some r \<Rightarrow> fst (restore_TMP (loop_env os env rt) (pyi_getenv_win32 env ''TMP''))
      | None \<Rightarrow> env,
      (case rt of Some r \<Rightarrow> [Setenv ''TMP'' (pyi_path_fullpath os r)] | None \<Rightarrow> [])
        @ snd (tempnam_loop os (loop_env os env rt) (GetTempPathW os (loop_env os env rt))
                  (''_MEI'' @ dec (getpid os)) 0)
        @ (case rt of
             Some r \<Rightarrow> snd (restore_TMP (loop_env os env rt) (pyi_getenv_win32 env ''TMP''))
           | None \<Rightarrow> []))"
  by (cases rt)
     (simp_all add: pyi_get_temp_path_win32_def loop_env_def Let_def
        split: prod.splits option.splits)

lemma pyi_get_temp_path_win32_created:
  assumes "fst (pyi_get_temp_path_win32 os env buff rt) \<noteq> 0"
  shows "Wmkdir (fst (snd (pyi_get_temp_path_win32 os env buff rt))) 0
       \<in> set (snd (snd (snd (pyi_get_temp_path_win32 os env buff rt))))"
proof -
  let ?L = "tempnam_loop os (loop_env os env rt) (GetTempPathW os (loop_env os env rt))
              (''_MEI'' @ dec (getpid os)) 0"
  from assms obtain d where d: "fst ?L = Some d"
    by (auto simp: pyi_get_temp_path_win32_unfold split: option.splits)
  from tempnam_loop_created [OF le0 d] have "Wmkdir d 0 \<in> set (snd ?L)" .
  with d show ?thesis
    by (simp add: pyi_get_temp_path_win32_unfold)
qed

lemma pyi_get_temp_path_on_Posix:
  "pyi_get_temp_path_on (Posix mk) env buff rt =
     (fst (pyi_get_temp_path mk env buff rt), fst (snd (pyi_get_temp_path mk env buff rt)),
      env, snd (snd (pyi_get_temp_path mk env buff rt)))"
  by (simp add: pyi_get_temp_path_on_def split_beta)

lemma pyi_get_temp_path_on_Win32:
  "pyi_get_temp_path_on (Win32 os) env buff rt = pyi_get_temp_path_win32 os env buff rt"
  by (simp add: pyi_get_temp_path_on_def)

lemma pyi_get_temp_path_on_created:
  assumes "fst (pyi_get_temp_path_on tgt env buff rt) \<noteq> 0"
  shows "(\<exists>tmpl. Mkdtemp tmpl (Some (fst (snd (pyi_get_temp_path_on tgt env buff rt))))
               \<in> set (snd (snd (snd (pyi_get_temp_path_on tgt env buff rt)))))
         \<or> Wmkdir (fst (snd (pyi_get_temp_path_on tgt env buff rt))) 0
               \<in> set (snd (snd (snd (pyi_get_temp_path_on tgt env buff rt))))"
proof (cases tgt)
  case (Posix mk)
  with assms have "fst (pyi_get_temp_path mk env buff rt) \<noteq> 0"
    by (simp add: pyi_get_temp_path_on_Posix)
  from pyi_get_temp_path_created [OF this] Posix show ?thesis
    by (simp add: pyi_get_temp_path_on_Posix)
next
  case (Win32 os)
  with assms have "fst (pyi_get_temp_path_win32 os env buff rt) \<noteq> 0"
    by (simp add: pyi_get_temp_path_on_Win32)
  from pyi_get_temp_path_win32_created [OF this] Win32 show ?thesis
    by (simp add: pyi_get_temp_path_on_Win32)
qed

lemma pyi_create_temp_path_unfold:
  "pyi_create_temp_path tgt env status =
     (if has_temp_directory status then (0, status, env, [])
      else if fst (pyi_get_temp_path_on tgt env (temppath status)
                     (pyi_arch_get_option status ''pyi-runtime-tmpdir'')) = 0
      then (- 1,
            status\<lparr>temppath := fst (snd (pyi_get_temp_path_on tgt env (temppath status)
                     (pyi_arch_get_option status ''pyi-runtime-tmpdir'')))\<rparr>,
            fst (snd (snd (pyi_get_temp_path_on tgt env (temppath status)
                     (pyi_arch_get_option status ''pyi-runtime-tmpdir'')))),
            snd (snd (snd (pyi_get_temp_path_on tgt env (temppath status)
                     (pyi_arch_get_option status ''pyi-runtime-tmpdir''))))
              @ [FatalError ''INTERNAL ERROR: cannot create temporary directory!''])
      else (0,
            status\<lparr>temppath := fst (snd (pyi_get_temp_path_on tgt env (temppath status)
                     (pyi_arch_get_option status ''pyi-runtime-tmpdir''))),
                   has_temp_directory := True\<rparr>,
            fst (snd (snd (pyi_get_temp_path_on tgt env (temppath status)
                     (pyi_arch_get_option status ''pyi-runtime-tmpdir'')))),
            snd (snd (snd (pyi_get_temp_path_on tgt env (temppath status)
                     (pyi_arch_get_option status ''pyi-runtime-tmpdir''))))))"
  by (simp add: pyi_create_temp_path_def Let_def split: prod.splits)



text \<open>
  Claim C7. With the flag \<^verbatim>\<open>has_temp_directory\<close> set, \<^verbatim>\<open>pyi_create_temp_path\<close> returns 0, makes
  no call to the system and leaves the status and the environment as they are. It
  returns 0 or -1. When it returns 0 from an unset flag, the flag is set and \<^verbatim>\<open>temppath\<close>
  is a directory that one of its calls created; a further call on the result, on any
  target, then returns 0 with no call and no change. When it returns -1 the flag was
  unset and is still unset.
\<close>

theorem pyi_create_temp_path_idempotent:
  "(has_temp_directory status \<longrightarrow> pyi_create_temp_path tgt env status = (0, status, env, []))
   \<and> (fst (pyi_create_temp_path tgt env status) = 0 \<or>
       fst (pyi_create_temp_path tgt env status) = - 1)
   \<and> (\<not> has_temp_directory status \<and> fst (pyi_create_temp_path tgt env status) = 0 \<longrightarrow>
        has_temp_directory (fst (snd (pyi_create_temp_path tgt env status)))
        \<and> ((\<exists>tmpl. Mkdtemp tmpl
                      (Some (temppath (fst (snd (pyi_create_temp_path tgt env status)))))
                    \<in> set (snd (snd (snd (pyi_create_temp_path tgt env status)))))
           \<or> Wmkdir (temppath (fst (snd (pyi_create_temp_path tgt env status)))) 0
                \<in> set (snd (snd (snd (pyi_create_temp_path tgt env status))))))
   \<and> (fst (pyi_create_temp_path tgt env status) = 0 \<longrightarrow>
        pyi_create_temp_path tgt' (fst (snd (snd (pyi_create_temp_path tgt env status))))
            (fst (snd (pyi_create_temp_path tgt env status)))
          = (0, fst (snd (pyi_create_temp_path tgt env status)),
             fst (snd (snd (pyi_create_temp_path tgt env status))), []))
   \<and> (fst (pyi_create_temp_path tgt env status) = - 1 \<longrightarrow>
        \<not> has_temp_directory status
        \<and> \<not> has_temp_directory (fst (snd (pyi_create_temp_path tgt env status))))"
proof (cases "has_temp_directory status")
  case True
  then show ?thesis by (simp add: pyi_create_temp_path_unfold)
next
  case False
  let ?g = "pyi_get_temp_path_on tgt env (temppath status)
              (pyi_arch_get_option status ''pyi-runtime-tmpdir'')"
  show ?thesis
  proof (cases "fst ?g = 0")
    case True
    with False show ?thesis by (simp add: pyi_create_temp_path_unfold)
  next
    case nz: False
    from pyi_get_temp_path_on_created [OF nz] False nz show ?thesis
      by (simp add: pyi_create_temp_path_unfold)
  qed
qed

theorem pyi_create_temp_path_idempotent_witness:
  "fst (pyi_create_temp_path
          (Posix (\<lambda>t. if t = ''/tmp/_MEIXXXXXX'' then Created ''/tmp/_MEIa1b2c3'' else Failed t))
          Map.empty
          \<lparr>has_temp_directory = False, temppath = [], homepath = ''/opt/app'',
           options = Map.empty\<rparr>) = 0
   \<and> fst (snd (pyi_create_temp_path
          (Posix (\<lambda>t. if t = ''/tmp/_MEIXXXXXX'' then Created ''/tmp/_MEIa1b2c3'' else Failed t))
          Map.empty
          \<lparr>has_temp_directory = False, temppath = [], homepath = ''/opt/app'',
           options = Map.empty\<rparr>))
       = \<lparr>has_temp_directory = True, temppath = ''/tmp/_MEIa1b2c3'', homepath = ''/opt/app'',
          options = Map.empty\<rparr>
   \<and> pyi_create_temp_path (Posix Failed) Map.empty
          \<lparr>has_temp_directory = True, temppath = ''/tmp/_MEIa1b2c3'', homepath = ''/opt/app'',
           options = Map.empty\<rparr>
       = (0, \<lparr>has_temp_directory = True, temppath = ''/tmp/_MEIa1b2c3'',
              homepath = ''/opt/app'', options = Map.empty\<rparr>, Map.empty, [])"
proof -
  let ?mk = "\<lambda>t. if t = ''/tmp/_MEIXXXXXX'' then Created ''/tmp/_MEIa1b2c3'' else Failed t"
  let ?st = "\<lparr>has_temp_directory = False, temppath = [], homepath = ''/opt/app'',
              options = Map.empty\<rparr>"
  have cands: "candidates Map.empty = [''/tmp'', ''/var/tmp'', ''/usr/tmp'']"
    by (simp add: candidates_def pyi_getenv_def List.map_filter_simps)
  have g: "pyi_get_temp_path ?mk Map.empty [] None
            = (1, ''/tmp/_MEIa1b2c3'', [Mkdtemp ''/tmp/_MEIXXXXXX'' (Some ''/tmp/_MEIa1b2c3'')])"
    by (simp add: pyi_get_temp_path_spec probe_spec_def cands creatable_def template_def)
  have r: "pyi_create_temp_path (Posix ?mk) Map.empty ?st
            = (0, \<lparr>has_temp_directory = True, temppath = ''/tmp/_MEIa1b2c3'',
                  homepath = ''/opt/app'', options = Map.empty\<rparr>, Map.empty,
               [Mkdtemp ''/tmp/_MEIXXXXXX'' (Some ''/tmp/_MEIa1b2c3'')])"
    by (simp add: pyi_create_temp_path_unfold pyi_get_temp_path_on_Posix
        pyi_arch_get_option_def g)
  from pyi_create_temp_path_idempotent [of ?st "Posix ?mk" Map.empty "Posix Failed"] r
  show ?thesis by simp
qed

text \<open>
  Claim C10. On Windows, without an override \<^verbatim>\<open>pyi_get_temp_path\<close> leaves the environment
  as it is and writes no variable. With an override, its first act sets \<^verbatim>\<open>TMP\<close> to the
  absolute path of the override, every \<^verbatim>\<open>_wtempnam\<close> call sees \<^verbatim>\<open>TMP\<close> with that value, and
  its last act, whether a directory was created or all five attempts failed, sets \<^verbatim>\<open>TMP\<close>
  back to its prior value, or unsets it when it was absent or empty; no other variable
  has changed.
\<close>

theorem pyi_get_temp_path_win32_restores_TMP:
  "fst (snd (snd (pyi_get_temp_path_win32 os env buffer None))) = env
   \<and> filter is_env_event (snd (snd (snd (pyi_get_temp_path_win32 os env buffer None)))) = []
   \<and> hd (snd (snd (snd (pyi_get_temp_path_win32 os env buffer (Some rt)))))
       = Setenv ''TMP'' (pyi_path_fullpath os rt)
   \<and> (\<forall>t n. Wtempnam t n \<in> set (snd (snd (snd (pyi_get_temp_path_win32 os env buffer (Some rt)))))
         \<longrightarrow> t = (if pyi_path_fullpath os rt = [] then None
                   else Some (pyi_path_fullpath os rt)))
   \<and> last (snd (snd (snd (pyi_get_temp_path_win32 os env buffer (Some rt)))))
       = (case env ''TMP'' of
            None \<Rightarrow> Unsetenv ''TMP''
          | Some v \<Rightarrow> if v = [] then Unsetenv ''TMP'' else Setenv ''TMP'' v)
   \<and> fst (snd (snd (pyi_get_temp_path_win32 os env buffer (Some rt))))
       = env(''TMP'' := (case env ''TMP'' of
                          None \<Rightarrow> None
                        | Some v \<Rightarrow> if v = [] then None else Some v))"
proof -
  let ?e1 = "loop_env os env (Some rt)"
  let ?L = "tempnam_loop os ?e1 (GetTempPathW os ?e1) (''_MEI'' @ dec (getpid os)) 0"
  have tmp1: "?e1 ''TMP'' = (if pyi_path_fullpath os rt = [] then None
                             else Some (pyi_path_fullpath os rt))"
    by (simp add: loop_env_def pyi_setenv_win32_def wputenv_s_def)
  have ev: "t = ?e1 ''TMP''" if "Wtempnam t n \<in> set (snd ?L)" for t n
    using tempnam_loop_events [OF that] by simp
  have restore: "fst (restore_TMP ?e1 (pyi_getenv_win32 env ''TMP''))
       = env(''TMP'' := (case env ''TMP'' of
                          None \<Rightarrow> None
                        | Some v \<Rightarrow> if v = [] then None else Some v))"
    by (auto simp: restore_TMP_def pyi_getenv_win32_eq pyi_getenv_def loop_env_def
        pyi_setenv_win32_def pyi_unsetenv_win32_def wputenv_s_def fun_eq_iff
        split: option.splits)
  have restore_ev: "snd (restore_TMP ?e1 (pyi_getenv_win32 env ''TMP''))
       = [case env ''TMP'' of
            None \<Rightarrow> Unsetenv ''TMP''
          | Some v \<Rightarrow> if v = [] then Unsetenv ''TMP'' else Setenv ''TMP'' v]"
    by (auto simp: restore_TMP_def pyi_getenv_win32_eq pyi_getenv_def split: option.splits)
  show ?thesis
  proof (intro conjI)
    show "fst (snd (snd (pyi_get_temp_path_win32 os env buffer None))) = env"
      by (simp add: pyi_get_temp_path_win32_unfold)
    show "filter is_env_event (snd (snd (snd (pyi_get_temp_path_win32 os env buffer None)))) = []"
      by (simp add: pyi_get_temp_path_win32_unfold tempnam_loop_no_env_event)
    show "hd (snd (snd (snd (pyi_get_temp_path_win32 os env buffer (Some rt)))))
       = Setenv ''TMP'' (pyi_path_fullpath os rt)"
      by (simp add: pyi_get_temp_path_win32_unfold)
    show "\<forall>t n. Wtempnam t n \<in> set (snd (snd (snd (pyi_get_temp_path_win32 os env buffer (Some rt)))))
         \<longrightarrow> t = (if pyi_path_fullpath os rt = [] then None
                   else Some (pyi_path_fullpath os rt))"
      using ev tmp1
      by (auto simp: pyi_get_temp_path_win32_unfold restore_ev split: option.splits if_splits)
    show "last (snd (snd (snd (pyi_get_temp_path_win32 os env buffer (Some rt)))))
       = (case env ''TMP'' of
            None \<Rightarrow> Unsetenv ''TMP''
          | Some v \<Rightarrow> if v = [] then Unsetenv ''TMP'' else Setenv ''TMP'' v)"
      by (simp add: pyi_get_temp_path_win32_unfold restore_ev)
    show "fst (snd (snd (pyi_get_temp_path_win32 os env buffer (Some rt))))
       = env(''TMP'' := (case env ''TMP'' of
                          None \<Rightarrow> None
                        | Some v \<Rightarrow> if v = [] then None else Some v))"
      by (simp add: pyi_get_temp_path_win32_unfold restore)
  qed
qed

theorem pyi_get_temp_path_win32_restores_TMP_witness:
  "Wtempnam (Some ''C:/rt'') ''C:/rt/_MEI1''
     \<in> set (snd (snd (snd (pyi_get_temp_path_win32
          \<lparr>pyi_path_fullpath = (\<lambda>p. ''C:/'' @ p),
           GetTempPathW = (\<lambda>e. case e ''TMP'' of Some v \<Rightarrow> v | None \<Rightarrow> ''C:/Temp''),
           getpid = 42,
           wtempnam = (\<lambda>i e d p. d @ ''/_MEI1''),
           wmkdir = (\<lambda>i n. if i = 1 then 0 else - 1)\<rparr>
          [''TMP'' \<mapsto> ''C:/old''] [] (Some ''rt'')))))
   \<and> fst (snd (snd (pyi_get_temp_path_win32
          \<lparr>pyi_path_fullpath = (\<lambda>p. ''C:/'' @ p),
           GetTempPathW = (\<lambda>e. case e ''TMP'' of Some v \<Rightarrow> v | None \<Rightarrow> ''C:/Temp''),
           getpid = 42,
           wtempnam = (\<lambda>i e d p. d @ ''/_MEI1''),
           wmkdir = (\<lambda>i n. if i = 1 then 0 else - 1)\<rparr>
          [''TMP'' \<mapsto> ''C:/old''] [] (Some ''rt''))))
       = [''TMP'' \<mapsto> ''C:/old'']"
proof -
  let ?os = "\<lparr>pyi_path_fullpath = (\<lambda>p. ''C:/'' @ p),
           GetTempPathW = (\<lambda>e. case e ''TMP'' of Some v \<Rightarrow> v | None \<Rightarrow> ''C:/Temp''),
           getpid = 42,
           wtempnam = (\<lambda>i e d p. d @ ''/_MEI1''),
           wmkdir = (\<lambda>i n. if i = 1 then 0 else - 1)\<rparr>"
  have mem: "Wtempnam (Some ''C:/rt'') ''C:/rt/_MEI1''
     \<in> set (snd (snd (snd (pyi_get_temp_path_win32 ?os [''TMP'' \<mapsto> ''C:/old''] []
                             (Some ''rt'')))))"
    by (simp add: pyi_get_temp_path_win32_unfold loop_env_def pyi_setenv_win32_def
        wputenv_s_def tempnam_loop_step attempt_ok_def)
  from pyi_get_temp_path_win32_restores_TMP [of ?os "[''TMP'' \<mapsto> ''C:/old'']" "[]" "''rt''"] mem
  show ?thesis by simp
qed

subsection \<open>Recursive removal of the scratch directory\<close>

















subsection \<open>Child process launcher\<close>

lemma strstr_Some_0: "strstr s needle = Some 0 \<longleftrightarrow> prefix needle s"
  by (cases s) auto

lemma copy_args_True:
  "argv_pyi (copy_args True argv p) = argv_pyi p @ filter (\<lambda>a. \<not> prefix ''-psn'' a) argv
   \<and> child_pid (copy_args True argv p) = child_pid p
   \<and> sigtable (copy_args True argv p) = sigtable p
   \<and> trace (copy_args True argv p) = trace p"
  by (induction argv arbitrary: p) (simp_all add: strstr_Some_0)

lemma copy_args_False:
  "argv_pyi (copy_args False argv p) = argv_pyi p @ argv
   \<and> child_pid (copy_args False argv p) = child_pid p
   \<and> sigtable (copy_args False argv p) = sigtable p
   \<and> trace (copy_args False argv p) = trace p"
  by (induction argv arbitrary: p) simp_all

lemma copy_args_fields:
  "argv_pyi (copy_args aw argv p)
     = argv_pyi p @ filter (\<lambda>a. \<not> (aw \<and> prefix ''-psn'' a)) argv
   \<and> child_pid (copy_args aw argv p) = child_pid p
   \<and> sigtable (copy_args aw argv p) = sigtable p
   \<and> trace (copy_args aw argv p) = trace p"
  using copy_args_True [of argv p] copy_args_False [of argv p] by (cases aw) simp_all

lemma install_loop_done: "65 \<le> signum \<Longrightarrow> install_loop os handler signum p = p"
  by (subst install_loop.simps) (simp add: num_signals_def)

lemma install_loop_step:
  "signum < 65 \<Longrightarrow>
   install_loop os handler signum p =
     install_loop os handler (Suc signum)
       (if signum \<noteq> SIGCHLD os \<and> signum \<noteq> SIGCLD os then signal os signum handler p else p)"
  by (subst install_loop.simps) (simp add: num_signals_def)

lemma install_loop_fields:
  "signum \<le> 65 \<Longrightarrow>
   argv_pyi (install_loop os handler signum p) = argv_pyi p
   \<and> child_pid (install_loop os handler signum p) = child_pid p
   \<and> sigtable (install_loop os handler signum p)
       = (\<lambda>s. if signum \<le> s \<and> caught os s then handler else sigtable p s)
   \<and> trace (install_loop os handler signum p)
       = trace p @ map (\<lambda>s. Signal s handler)
                     (filter (\<lambda>s. s \<noteq> SIGCHLD os \<and> s \<noteq> SIGCLD os) [signum..<65])"
proof (induction "65 - signum" arbitrary: signum p)
  case 0
  then have "signum = 65" by simp
  then show ?case by (auto simp: install_loop_done caught_def handled_def fun_eq_iff)
next
  case (Suc k)
  then have lt: "signum < 65" and k: "k = 65 - Suc signum" and le: "Suc signum \<le> 65"
    by simp_all
  have upt: "[signum..<65] = signum # [Suc signum..<65]"
    using lt by (simp add: upt_conv_Cons)
  note IH = Suc.hyps(1) [OF k le]
  show ?case
    unfolding install_loop_step [OF lt] upt
    using lt
    by (auto simp: IH signal_def emit_def caught_def handled_def fun_eq_iff not_less_eq_eq
          dest: le_antisym)
qed

lemma restore_loop_done: "65 \<le> signum \<Longrightarrow> restore_loop os signum p = p"
  by (subst restore_loop.simps) (simp add: num_signals_def)

lemma restore_loop_step:
  "signum < 65 \<Longrightarrow>
   restore_loop os signum p = restore_loop os (Suc signum) (signal os signum SIG_DFL p)"
  by (subst restore_loop.simps) (simp add: num_signals_def)

lemma restore_loop_fields:
  "signum \<le> 65 \<Longrightarrow>
   argv_pyi (restore_loop os signum p) = argv_pyi p
   \<and> child_pid (restore_loop os signum p) = child_pid p
   \<and> sigtable (restore_loop os signum p)
       = (\<lambda>s. if signum \<le> s \<and> s < 65 \<and> \<not> signal_refused os s then SIG_DFL
               else sigtable p s)
   \<and> trace (restore_loop os signum p) = trace p @ map (\<lambda>s. Signal s SIG_DFL) [signum..<65]"
proof (induction "65 - signum" arbitrary: signum p)
  case 0
  then have "signum = 65" by simp
  then show ?case by (auto simp: restore_loop_done fun_eq_iff)
next
  case (Suc k)
  then have lt: "signum < 65" and k: "k = 65 - Suc signum" and le: "Suc signum \<le> 65"
    by simp_all
  have upt: "[signum..<65] = signum # [Suc signum..<65]"
    using lt by (simp add: upt_conv_Cons)
  note IH = Suc.hyps(1) [OF k le]
  show ?case
    unfolding restore_loop_step [OF lt] upt
    using lt by (auto simp: IH signal_def emit_def fun_eq_iff not_less_eq_eq dest: le_antisym)
qed

lemma deliver_all_fields:
  "\<not> list_ex (\<lambda>s. sigtable p s = SIG_DFL \<and> default_fatal os s) sigs \<Longrightarrow>
   fst (deliver_all os sigs p) = None
   \<and> argv_pyi (snd (deliver_all os sigs p)) = argv_pyi p
   \<and> child_pid (snd (deliver_all os sigs p)) = child_pid p
   \<and> sigtable (snd (deliver_all os sigs p)) = sigtable p
   \<and> trace (snd (deliver_all os sigs p))
       = trace p @ map (Kill (child_pid p))
                     (filter (\<lambda>s. sigtable p s = Fn_signal_handler) sigs)"
proof (induction sigs arbitrary: p)
  case Nil
  show ?case by simp
next
  case (Cons s sigs)
  show ?case
  proof (cases "sigtable p s")
    case SIG_DFL
    with Cons.prems have d: "deliver os s p = Some p"
      by (simp add: deliver_def)
    from Cons.prems have "\<not> list_ex (\<lambda>s. sigtable p s = SIG_DFL \<and> default_fatal os s) sigs"
      by simp
    from Cons.IH [OF this] d SIG_DFL show ?thesis by simp
  next
    case Fn_signal_handler
    let ?p = "signal_handler s p"
    have d: "deliver os s p = Some ?p"
      using Fn_signal_handler by (simp add: deliver_def)
    have f: "sigtable ?p = sigtable p" "child_pid ?p = child_pid p" "argv_pyi ?p = argv_pyi p"
      "trace ?p = trace p @ [Kill (child_pid p) s]"
      by (simp_all add: signal_handler_def emit_def)
    from Cons.prems have "\<not> list_ex (\<lambda>s. sigtable ?p s = SIG_DFL \<and> default_fatal os s) sigs"
      by (simp add: f)
    from Cons.IH [OF this] d Fn_signal_handler show ?thesis by (simp add: f)
  next
    case Fn_ignoring_signal_handler
    have d: "deliver os s p = Some p"
      using Fn_ignoring_signal_handler by (simp add: deliver_def ignoring_signal_handler_def)
    from Cons.prems have "\<not> list_ex (\<lambda>s. sigtable p s = SIG_DFL \<and> default_fatal os s) sigs"
      by simp
    from Cons.IH [OF this] d Fn_ignoring_signal_handler show ?thesis by simp
  qed
qed

lemma wait_loop_fields:
  "child_pid p \<noteq> 0 \<Longrightarrow>
   fst (wait_loop os answers p) = List.find (\<lambda>answer. fst answer \<noteq> 0) answers
   \<and> argv_pyi (snd (wait_loop os answers p)) = argv_pyi p
   \<and> child_pid (snd (wait_loop os answers p)) = child_pid p
   \<and> sigtable (snd (wait_loop os answers p)) = sigtable p
   \<and> (\<exists>waits. trace (snd (wait_loop os answers p)) = trace p @ waits
                \<and> filter is_wait_event waits = waits)"
proof (induction answers arbitrary: p)
  case Nil
  then show ?case by (simp add: emit_def)
next
  case (Cons a answers)
  obtain w rc where a: "a = (w, rc)" by (cases a)
  show ?case
  proof (cases "w = 0")
    case True
    let ?p = "process_apple_events os (emit (Waitpid (child_pid p)) p)"
    have pid: "child_pid ?p \<noteq> 0" and args: "argv_pyi ?p = argv_pyi p"
      and pid': "child_pid ?p = child_pid p" and tbl: "sigtable ?p = sigtable p"
      and tr: "trace ?p = trace p @ [Waitpid (child_pid p), ProcessAppleEvents]"
      using Cons.prems by (simp_all add: process_apple_events_def emit_def)
    from Cons.IH [OF pid] obtain waits where
      w: "trace (snd (wait_loop os answers ?p)) = trace ?p @ waits"
         "filter is_wait_event waits = waits"
      by blast
    have "trace (snd (wait_loop os (a # answers) p))
            = trace p @ ([Waitpid (child_pid p), ProcessAppleEvents] @ waits)"
      using w(1) True a tr by simp
    moreover have "filter is_wait_event ([Waitpid (child_pid p), ProcessAppleEvents] @ waits)
            = [Waitpid (child_pid p), ProcessAppleEvents] @ waits"
      using w(2) by simp
    ultimately have "\<exists>waits. trace (snd (wait_loop os (a # answers) p)) = trace p @ waits
                \<and> filter is_wait_event waits = waits"
      by blast
    with Cons.IH [OF pid] True a args pid' tbl show ?thesis by simp
  next
    case False
    have "trace (emit (Waitpid (child_pid p)) p) = trace p @ [Waitpid (child_pid p)]
          \<and> filter is_wait_event [Waitpid (child_pid p)] = [Waitpid (child_pid p)]"
      by (simp add: emit_def)
    then have "\<exists>waits. trace (emit (Waitpid (child_pid p)) p) = trace p @ waits
                \<and> filter is_wait_event waits = waits"
      by blast
    with False a show ?thesis by (simp add: emit_def)
  qed
qed

lemma waitpid_fields:
  "fst (waitpid answers p) = (case answers of [] \<Rightarrow> None | answer # _ \<Rightarrow> Some answer)
   \<and> argv_pyi (snd (waitpid answers p)) = argv_pyi p
   \<and> child_pid (snd (waitpid answers p)) = child_pid p
   \<and> sigtable (snd (waitpid answers p)) = sigtable p
   \<and> trace (snd (waitpid answers p)) = trace p @ [Waitpid (child_pid p)]"
  by (simp add: waitpid_def emit_def split: list.splits)

lemma before_fork_eq:
  "(if apple_windowed os then process_apple_events os (copy_args (apple_windowed os) argv proc0)
    else copy_args (apple_windowed os) argv proc0) = before_fork os argv"
  by (rule proc.equality)
     (simp_all add: before_fork_def child_argv_def copy_args_fields process_apple_events_def
        emit_def proc0_def)

lemma before_fork_fields:
  "argv_pyi (before_fork os argv) = child_argv os argv"
  "child_pid (before_fork os argv) = 0"
  "sigtable (before_fork os argv) = (\<lambda>signum. SIG_DFL)"
  "trace (before_fork os argv) = (if apple_windowed os then [ProcessAppleEvents] else [])"
  by (simp_all add: before_fork_def)

lemma create_child_unfold:
  "pyi_utils_create_child os env thisfile status argv =
     (if fork_result os < 0 then cleanup os (- 1) 0 (before_fork os argv)
      else if fork_result os = 0 then
        (if execvp_result os < 0
         then cleanup os (- 1) 0
                (emit (Execvp thisfile (child_argv os argv)
                         (snd (set_systemd_env env (child_getpid os))))
                   (before_fork os argv))
         else (Replaced,
               emit (Execvp thisfile (child_argv os argv)
                       (snd (set_systemd_env env (child_getpid os))))
                 (before_fork os argv)))
      else
        (let d = deliver_all os (incoming os)
                   (install_loop os
                      (if pyi_arch_get_option status ''pyi-bootloader-ignore-signals'' \<noteq> None
                       then Fn_ignoring_signal_handler else Fn_signal_handler) 0
                      ((before_fork os argv)\<lparr>child_pid := fork_result os\<rparr>))
         in case fst d of
              Some signum \<Rightarrow> (Killed signum, snd d)
            | None \<Rightarrow>
                (let r = (if apple_windowed os then wait_loop os (wait_answers os) (snd d)
                          else waitpid (wait_answers os) (snd d))
                 in case fst r of
                      None \<Rightarrow> (Blocked, snd r)
                    | Some (wait_rc, rc) \<Rightarrow>
                        cleanup os wait_rc rc (restore_loop os 0 (snd r)))))"
  unfolding pyi_utils_create_child_def Let_def before_fork_eq
  by (simp add: split_beta before_fork_fields cong: option.case_cong)

lemma parent_run:
  assumes pid: "0 < fork_result os" and reap: "reaped os = Some (w, st)"
  shows "\<exists>waits. filter is_wait_event waits = waits \<and>
     pyi_utils_create_child os env thisfile status argv =
       cleanup os w st
         \<lparr>argv_pyi = child_argv os argv, child_pid = fork_result os,
          sigtable = (\<lambda>signum. SIG_DFL),
          trace = (if apple_windowed os then [ProcessAppleEvents] else [])
            @ map (\<lambda>s. Signal s (if options status ''pyi-bootloader-ignore-signals'' = None
                                  then Fn_signal_handler else Fn_ignoring_signal_handler))
                  (filter (\<lambda>s. s \<noteq> SIGCHLD os \<and> s \<noteq> SIGCLD os) [0..<65])
            @ map (Kill (fork_result os))
                  (filter (\<lambda>s. caught os s
                             \<and> options status ''pyi-bootloader-ignore-signals'' = None)
                     (incoming os))
            @ waits @ map (\<lambda>s. Signal s SIG_DFL) [0..<65]\<rparr>"
proof -
  define h where "h = (if pyi_arch_get_option status ''pyi-bootloader-ignore-signals'' \<noteq> None
                        then Fn_ignoring_signal_handler else Fn_signal_handler)"
  define p3 where "p3 = (before_fork os argv)\<lparr>child_pid := fork_result os\<rparr>"
  define p4 where "p4 = install_loop os h 0 p3"
  define d where "d = deliver_all os (incoming os) p4"
  define p5 where "p5 = snd d"
  define r where "r = (if apple_windowed os then wait_loop os (wait_answers os) p5
                       else waitpid (wait_answers os) p5)"
  have h_eq: "h = (if options status ''pyi-bootloader-ignore-signals'' = None
                   then Fn_signal_handler else Fn_ignoring_signal_handler)"
    by (simp add: h_def pyi_arch_get_option_def)
  have h_ne: "h \<noteq> SIG_DFL"
    by (simp add: h_eq)
  have p3: "argv_pyi p3 = child_argv os argv" "child_pid p3 = fork_result os"
    "sigtable p3 = (\<lambda>signum. SIG_DFL)"
    "trace p3 = (if apple_windowed os then [ProcessAppleEvents] else [])"
    by (simp_all add: p3_def before_fork_def)
  note i = install_loop_fields [OF le0, of os h p3]
  have p4: "argv_pyi p4 = child_argv os argv" "child_pid p4 = fork_result os"
    "sigtable p4 = (\<lambda>s. if caught os s then h else SIG_DFL)"
    "trace p4 = trace p3 @ map (\<lambda>s. Signal s h)
                  (filter (\<lambda>s. s \<noteq> SIGCHLD os \<and> s \<noteq> SIGCLD os) [0..<65])"
    using i by (simp_all add: p4_def p3 cong del: if_weak_cong)
  have kills: "filter (\<lambda>s. sigtable p4 s = Fn_signal_handler) (incoming os)
      = filter (\<lambda>s. caught os s \<and> options status ''pyi-bootloader-ignore-signals'' = None)
          (incoming os)"
    by (rule filter_cong) (auto simp: p4 h_eq)
  have alive: "\<not> list_ex (\<lambda>s. default_fatal os s \<and> \<not> caught os s) (incoming os)"
    using reap by (auto simp: reaped_def split: if_splits)
  have "(\<lambda>s. sigtable p4 s = SIG_DFL \<and> default_fatal os s)
          = (\<lambda>s. default_fatal os s \<and> \<not> caught os s)"
    using h_ne by (auto simp: p4 fun_eq_iff)
  with alive have "\<not> list_ex (\<lambda>s. sigtable p4 s = SIG_DFL \<and> default_fatal os s) (incoming os)"
    by simp
  note dl = deliver_all_fields [OF this]
  have d: "fst d = None"
    using dl by (simp add: d_def)
  have p5: "argv_pyi p5 = child_argv os argv" "child_pid p5 = fork_result os"
    "sigtable p5 = sigtable p4"
    "trace p5 = trace p4 @ map (Kill (fork_result os))
        (filter (\<lambda>s. caught os s \<and> options status ''pyi-bootloader-ignore-signals'' = None)
           (incoming os))"
    using dl by (simp_all add: p5_def d_def p4(1,2) kills)
  have nz: "child_pid p5 \<noteq> 0"
    using pid by (simp add: p5)
  have reap': "(if apple_windowed os
                then List.find (\<lambda>answer. fst answer \<noteq> 0) (wait_answers os)
                else (case wait_answers os of [] \<Rightarrow> None | answer # _ \<Rightarrow> Some answer))
               = Some (w, st)"
    using reap by (simp add: reaped_def split: if_splits)
  have r: "fst r = Some (w, st)" "argv_pyi (snd r) = child_argv os argv"
    "child_pid (snd r) = fork_result os" "sigtable (snd r) = sigtable p4"
    "\<exists>waits. trace (snd r) = trace p5 @ waits \<and> filter is_wait_event waits = waits"
  proof -
    show "fst r = Some (w, st)"
      using reap' wait_loop_fields [OF nz, of os "wait_answers os"]
        waitpid_fields [of "wait_answers os" p5]
      by (simp add: r_def split: if_splits)
    show "argv_pyi (snd r) = child_argv os argv"
      using wait_loop_fields [OF nz, of os "wait_answers os"]
        waitpid_fields [of "wait_answers os" p5]
      by (simp add: r_def p5)
    show "child_pid (snd r) = fork_result os"
      using wait_loop_fields [OF nz, of os "wait_answers os"]
        waitpid_fields [of "wait_answers os" p5]
      by (simp add: r_def p5)
    show "sigtable (snd r) = sigtable p4"
      using wait_loop_fields [OF nz, of os "wait_answers os"]
        waitpid_fields [of "wait_answers os" p5]
      by (simp add: r_def p5)
    show "\<exists>waits. trace (snd r) = trace p5 @ waits \<and> filter is_wait_event waits = waits"
    proof (cases "apple_windowed os")
      case True
      then show ?thesis
        using wait_loop_fields [OF nz, of os "wait_answers os"] by (simp add: r_def)
    next
      case False
      have "trace (snd (waitpid (wait_answers os) p5)) = trace p5 @ [Waitpid (child_pid p5)]
            \<and> filter is_wait_event [Waitpid (child_pid p5)] = [Waitpid (child_pid p5)]"
        using waitpid_fields [of "wait_answers os" p5] by simp
      then have "\<exists>waits. trace (snd (waitpid (wait_answers os) p5)) = trace p5 @ waits
            \<and> filter is_wait_event waits = waits"
        by blast
      with False show ?thesis by (simp add: r_def)
    qed
  qed
  from r(5) obtain waits where
    waits: "trace (snd r) = trace p5 @ waits" "filter is_wait_event waits = waits"
    by blast
  note rs = restore_loop_fields [OF le0, of os "snd r"]
  have p7: "restore_loop os 0 (snd r) =
       \<lparr>argv_pyi = child_argv os argv, child_pid = fork_result os,
        sigtable = (\<lambda>signum. SIG_DFL),
        trace = (if apple_windowed os then [ProcessAppleEvents] else [])
          @ map (\<lambda>s. Signal s (if options status ''pyi-bootloader-ignore-signals'' = None
                                then Fn_signal_handler else Fn_ignoring_signal_handler))
                (filter (\<lambda>s. s \<noteq> SIGCHLD os \<and> s \<noteq> SIGCLD os) [0..<65])
          @ map (Kill (fork_result os))
                (filter (\<lambda>s. caught os s
                           \<and> options status ''pyi-bootloader-ignore-signals'' = None)
                   (incoming os))
          @ waits @ map (\<lambda>s. Signal s SIG_DFL) [0..<65]\<rparr>"
  proof (rule proc.equality)
    show "sigtable (restore_loop os 0 (snd r)) = sigtable \<lparr>argv_pyi = child_argv os argv,
        child_pid = fork_result os, sigtable = (\<lambda>signum. SIG_DFL),
        trace = (if apple_windowed os then [ProcessAppleEvents] else [])
          @ map (\<lambda>s. Signal s (if options status ''pyi-bootloader-ignore-signals'' = None
                                then Fn_signal_handler else Fn_ignoring_signal_handler))
                (filter (\<lambda>s. s \<noteq> SIGCHLD os \<and> s \<noteq> SIGCLD os) [0..<65])
          @ map (Kill (fork_result os))
                (filter (\<lambda>s. caught os s
                           \<and> options status ''pyi-bootloader-ignore-signals'' = None)
                   (incoming os))
          @ waits @ map (\<lambda>s. Signal s SIG_DFL) [0..<65]\<rparr>"
      using rs by (auto simp: r(4) p4(3) caught_def handled_def fun_eq_iff)
  qed (use rs in \<open>simp_all add: r waits p5 p4 p3 h_eq\<close>)
  from pid have nf: "\<not> fork_result os < 0" "fork_result os \<noteq> 0"
    by simp_all
  have "pyi_utils_create_child os env thisfile status argv
          = (case fst d of
               Some signum \<Rightarrow> (Killed signum, snd d)
             | None \<Rightarrow>
                 (case fst r of
                    None \<Rightarrow> (Blocked, snd r)
                  | Some (wait_rc, rc) \<Rightarrow> cleanup os wait_rc rc (restore_loop os 0 (snd r))))"
    unfolding create_child_unfold Let_def r_def p5_def d_def p4_def p3_def h_def
    by (simp only: nf if_False)
  then have "pyi_utils_create_child os env thisfile status argv
          = cleanup os w st (restore_loop os 0 (snd r))"
    by (simp add: d r(1))
  with p7 waits(2) show ?thesis by auto
qed

lemma wait_events_filters:
  assumes "filter is_wait_event ws = ws"
  shows "filter is_Raise ws = []" "filter is_Signal ws = []" "filter is_Kill ws = []"
proof -
  have w: "is_wait_event e" if "e \<in> set ws" for e
    using assms that by (metis filter_id_conv)
  have "\<not> is_Raise e \<and> \<not> is_Signal e \<and> \<not> is_Kill e" if "e \<in> set ws" for e
    using w [OF that] by (cases e) simp_all
  then show "filter is_Raise ws = []" "filter is_Signal ws = []" "filter is_Kill ws = []"
    by (simp_all add: filter_empty_conv)
qed

lemma filter_map_events:
  "filter is_Raise (map (\<lambda>s. Signal s h) xs) = []"
  "filter is_Raise (map (Kill pid) xs) = []"
  "filter is_Signal (map (\<lambda>s. Signal s h) xs) = map (\<lambda>s. Signal s h) xs"
  "filter is_Signal (map (Kill pid) xs) = []"
  "filter is_Kill (map (\<lambda>s. Signal s h) xs) = []"
  "filter is_Kill (map (Kill pid) xs) = map (Kill pid) xs"
  by (induction xs) simp_all

lemma cleanup_unfold:
  "cleanup os wait_rc rc p =
     (if wait_rc < 0 then (Return 1, p\<lparr>trace := trace p @ [FreeArgv (argv_pyi p)]\<rparr>)
      else if WIFEXITED rc
      then (Return (WEXITSTATUS rc), p\<lparr>trace := trace p @ [FreeArgv (argv_pyi p)]\<rparr>)
      else if WIFSIGNALED rc
      then (if raise_returns os then Return 1 else Killed (WTERMSIG rc),
            p\<lparr>trace := trace p @ [FreeArgv (argv_pyi p), Raise (WTERMSIG rc)]\<rparr>)
      else (Return 1, p\<lparr>trace := trace p @ [FreeArgv (argv_pyi p)]\<rparr>))"
  by (simp add: cleanup_def emit_def Let_def)

lemma WIFSIGNALED_not_exited: "WIFSIGNALED st \<Longrightarrow> \<not> WIFEXITED st"
  by (simp add: WIFSIGNALED_def WIFEXITED_def)

text \<open>
  Claim C1. \<^verbatim>\<open>pyi_utils_create_child\<close> returns 1, and raises nothing, when \<^verbatim>\<open>fork\<close> fails, when
  \<^verbatim>\<open>execvp\<close> fails in the child, and when the wait for the child fails (a negative answer of
  \<^verbatim>\<open>waitpid\<close>). When the child exited normally it returns the child's exit code, and raises
  nothing. When the child was terminated by a signal, its last act is to raise that same
  signal against itself, once, with the default disposition in force for it: the process
  ends by that signal, and the \<^verbatim>\<open>return 1\<close> that follows in the source is reached only if
  the system lets \<^verbatim>\<open>raise\<close> return. (\<open>reaped\<close> is the answer of \<^verbatim>\<open>waitpid\<close> that the parent
  gets; it gets none when the child never terminates, or when a signal that it could not
  catch ends the parent first.)
\<close>

theorem pyi_utils_create_child_translates_status:
  "(fork_result os < 0 \<or> (fork_result os = 0 \<and> execvp_result os < 0)
      \<or> (0 < fork_result os \<and> reaped os = Some (w, st) \<and> w < 0)
    \<longrightarrow> fst (pyi_utils_create_child os env thisfile status argv) = Return 1
        \<and> filter is_Raise (trace (snd (pyi_utils_create_child os env thisfile status argv))) = [])
   \<and> (0 < fork_result os \<and> reaped os = Some (w, st) \<and> 0 \<le> w \<and> WIFEXITED st
    \<longrightarrow> fst (pyi_utils_create_child os env thisfile status argv) = Return (WEXITSTATUS st)
        \<and> filter is_Raise (trace (snd (pyi_utils_create_child os env thisfile status argv))) = [])
   \<and> (0 < fork_result os \<and> reaped os = Some (w, st) \<and> 0 \<le> w \<and> WIFSIGNALED st
    \<longrightarrow> filter is_Raise (trace (snd (pyi_utils_create_child os env thisfile status argv)))
          = [Raise (WTERMSIG st)]
        \<and> last (trace (snd (pyi_utils_create_child os env thisfile status argv)))
          = Raise (WTERMSIG st)
        \<and> sigtable (snd (pyi_utils_create_child os env thisfile status argv)) (WTERMSIG st)
          = SIG_DFL
        \<and> fst (pyi_utils_create_child os env thisfile status argv)
          = (if raise_returns os then Return 1 else Killed (WTERMSIG st)))"
proof (intro conjI impI)
  assume a: "fork_result os < 0 \<or> (fork_result os = 0 \<and> execvp_result os < 0)
      \<or> (0 < fork_result os \<and> reaped os = Some (w, st) \<and> w < 0)"
  then consider (fork) "fork_result os < 0"
    | (exec) "fork_result os = 0" "execvp_result os < 0"
    | (wait) "0 < fork_result os" "reaped os = Some (w, st)" "w < 0"
    by blast
  then have "fst (pyi_utils_create_child os env thisfile status argv) = Return 1
        \<and> filter is_Raise (trace (snd (pyi_utils_create_child os env thisfile status argv))) = []"
  proof cases
    case fork
    then show ?thesis
      by (simp add: create_child_unfold cleanup_unfold before_fork_fields)
  next
    case exec
    then show ?thesis
      by (simp add: create_child_unfold cleanup_unfold before_fork_fields emit_def)
  next
    case wait
    from parent_run [OF wait(1,2), of env thisfile status argv] wait(3) show ?thesis
      by (auto simp: cleanup_unfold filter_map_events wait_events_filters)
  qed
  then show "fst (pyi_utils_create_child os env thisfile status argv) = Return 1"
    and "filter is_Raise (trace (snd (pyi_utils_create_child os env thisfile status argv))) = []"
    by simp_all
next
  assume a: "0 < fork_result os \<and> reaped os = Some (w, st) \<and> 0 \<le> w \<and> WIFEXITED st"
  then have pid: "0 < fork_result os" and reap: "reaped os = Some (w, st)" by simp_all
  from parent_run [OF pid reap, of env thisfile status argv] a
  have "fst (pyi_utils_create_child os env thisfile status argv) = Return (WEXITSTATUS st)
        \<and> filter is_Raise (trace (snd (pyi_utils_create_child os env thisfile status argv))) = []"
    by (auto simp: cleanup_unfold filter_map_events wait_events_filters)
  then show "fst (pyi_utils_create_child os env thisfile status argv) = Return (WEXITSTATUS st)"
    and "filter is_Raise (trace (snd (pyi_utils_create_child os env thisfile status argv))) = []"
    by simp_all
next
  assume a: "0 < fork_result os \<and> reaped os = Some (w, st) \<and> 0 \<le> w \<and> WIFSIGNALED st"
  then have pid: "0 < fork_result os" and reap: "reaped os = Some (w, st)" by simp_all
  from a have ne: "\<not> WIFEXITED st" by (simp add: WIFSIGNALED_not_exited)
  from parent_run [OF pid reap, of env thisfile status argv] a ne
  have "filter is_Raise (trace (snd (pyi_utils_create_child os env thisfile status argv)))
          = [Raise (WTERMSIG st)]
        \<and> last (trace (snd (pyi_utils_create_child os env thisfile status argv)))
          = Raise (WTERMSIG st)
        \<and> sigtable (snd (pyi_utils_create_child os env thisfile status argv)) (WTERMSIG st)
          = SIG_DFL
        \<and> fst (pyi_utils_create_child os env thisfile status argv)
          = (if raise_returns os then Return 1 else Killed (WTERMSIG st))"
    by (auto simp: cleanup_unfold filter_map_events wait_events_filters)
  then show "filter is_Raise (trace (snd (pyi_utils_create_child os env thisfile status argv)))
          = [Raise (WTERMSIG st)]"
    and "last (trace (snd (pyi_utils_create_child os env thisfile status argv)))
          = Raise (WTERMSIG st)"
    and "sigtable (snd (pyi_utils_create_child os env thisfile status argv)) (WTERMSIG st)
          = SIG_DFL"
    and "fst (pyi_utils_create_child os env thisfile status argv)
          = (if raise_returns os then Return 1 else Killed (WTERMSIG st))"
    by simp_all
qed

theorem pyi_utils_create_child_translates_status_witness:
  "fst (pyi_utils_create_child
          \<lparr>apple_windowed = False, SIGCHLD = 17, SIGCLD = 17, pending_docs = [],
           fork_result = 4242, child_getpid = 4242, execvp_result = 0, incoming = [],
           wait_answers = [(4242, 0x0700)], raise_returns = False,
           signal_refused = (\<lambda>s. s = 0 \<or> s = 9 \<or> s = 19 \<or> 64 < s),
           default_fatal = (\<lambda>s. 0 < s \<and> s < 65 \<and> s \<notin> set [17, 18, 19, 20, 21, 22, 23, 28])\<rparr>
          Map.empty ''/app''
          \<lparr>has_temp_directory = False, temppath = [], homepath = ''/opt'', options = Map.empty\<rparr>
          [''/app'']) = Return 7
   \<and> fst (pyi_utils_create_child
          \<lparr>apple_windowed = False, SIGCHLD = 17, SIGCLD = 17, pending_docs = [],
           fork_result = 4242, child_getpid = 4242, execvp_result = 0, incoming = [],
           wait_answers = [(4242, 15)], raise_returns = False,
           signal_refused = (\<lambda>s. s = 0 \<or> s = 9 \<or> s = 19 \<or> 64 < s),
           default_fatal = (\<lambda>s. 0 < s \<and> s < 65 \<and> s \<notin> set [17, 18, 19, 20, 21, 22, 23, 28])\<rparr>
          Map.empty ''/app''
          \<lparr>has_temp_directory = False, temppath = [], homepath = ''/opt'', options = Map.empty\<rparr>
          [''/app'']) = Killed 15
   \<and> fst (pyi_utils_create_child
          \<lparr>apple_windowed = False, SIGCHLD = 17, SIGCLD = 17, pending_docs = [],
           fork_result = - 1, child_getpid = 4242, execvp_result = 0, incoming = [],
           wait_answers = [], raise_returns = False,
           signal_refused = (\<lambda>s. s = 0 \<or> s = 9 \<or> s = 19 \<or> 64 < s),
           default_fatal = (\<lambda>s. 0 < s \<and> s < 65 \<and> s \<notin> set [17, 18, 19, 20, 21, 22, 23, 28])\<rparr>
          Map.empty ''/app''
          \<lparr>has_temp_directory = False, temppath = [], homepath = ''/opt'', options = Map.empty\<rparr>
          [''/app'']) = Return 1"
proof -
  let ?st = "\<lparr>has_temp_directory = False, temppath = [], homepath = ''/opt'',
              options = Map.empty\<rparr>"
  let ?A = "\<lparr>apple_windowed = False, SIGCHLD = 17, SIGCLD = 17, pending_docs = [],
           fork_result = 4242, child_getpid = 4242, execvp_result = 0, incoming = [],
           wait_answers = [(4242, 0x0700)], raise_returns = False,
           signal_refused = (\<lambda>s. s = 0 \<or> s = 9 \<or> s = 19 \<or> 64 < s),
           default_fatal = (\<lambda>s. 0 < s \<and> s < 65 \<and> s \<notin> set [17, 18, 19, 20, 21, 22, 23, 28])\<rparr>"
  let ?B = "\<lparr>apple_windowed = False, SIGCHLD = 17, SIGCLD = 17, pending_docs = [],
           fork_result = 4242, child_getpid = 4242, execvp_result = 0, incoming = [],
           wait_answers = [(4242, 15)], raise_returns = False,
           signal_refused = (\<lambda>s. s = 0 \<or> s = 9 \<or> s = 19 \<or> 64 < s),
           default_fatal = (\<lambda>s. 0 < s \<and> s < 65 \<and> s \<notin> set [17, 18, 19, 20, 21, 22, 23, 28])\<rparr>"
  let ?C = "\<lparr>apple_windowed = False, SIGCHLD = 17, SIGCLD = 17, pending_docs = [],
           fork_result = - 1, child_getpid = 4242, execvp_result = 0, incoming = [],
           wait_answers = [], raise_returns = False,
           signal_refused = (\<lambda>s. s = 0 \<or> s = 9 \<or> s = 19 \<or> 64 < s),
           default_fatal = (\<lambda>s. 0 < s \<and> s < 65 \<and> s \<notin> set [17, 18, 19, 20, 21, 22, 23, 28])\<rparr>"
  have exited: "WIFEXITED (0x0700 :: 32 word)" "WEXITSTATUS (0x0700 :: 32 word) = 7"
    by (simp_all add: WIFEXITED_def WTERMSIG_def WEXITSTATUS_def)
  have signaled: "WIFSIGNALED (15 :: 32 word)" "WTERMSIG (15 :: 32 word) = 15"
    by (simp_all add: WIFSIGNALED_def WTERMSIG_def)
  have a: "fst (pyi_utils_create_child ?A Map.empty ''/app'' ?st [''/app'']) = Return 7"
    using pyi_utils_create_child_translates_status
            [where os = ?A and w = 4242 and st = "0x0700" and env = Map.empty
               and thisfile = "''/app''" and status = ?st and argv = "[''/app'']"] exited
    by (simp add: reaped_def)
  have b: "fst (pyi_utils_create_child ?B Map.empty ''/app'' ?st [''/app'']) = Killed 15"
    using pyi_utils_create_child_translates_status
            [where os = ?B and w = 4242 and st = 15 and env = Map.empty
               and thisfile = "''/app''" and status = ?st and argv = "[''/app'']"] signaled
    by (simp add: reaped_def)
  have c: "fst (pyi_utils_create_child ?C Map.empty ''/app'' ?st [''/app'']) = Return 1"
    using pyi_utils_create_child_translates_status
            [where os = ?C and w = 0 and st = 0 and env = Map.empty
               and thisfile = "''/app''" and status = ?st and argv = "[''/app'']"]
    by simp
  from a b c show ?thesis by simp
qed





text \<open>
  Claim C9. The copy loop keeps the arguments in their order and drops exactly those
  that begin with \<^verbatim>\<open>-psn\<close> on the windowed macOS build (none on the other builds). The child
  calls \<^verbatim>\<open>execvp\<close> once, with this filtered copy; on the windowed macOS build the paths of
  the open-document events that were pending before the fork follow it.
\<close>

theorem pyi_utils_create_child_filters_argv:
  "argv_pyi (copy_args (apple_windowed os) argv proc0)
     = filter (\<lambda>a. \<not> (apple_windowed os \<and> prefix ''-psn'' a)) argv
   \<and> (fork_result os = 0 \<longrightarrow>
        filter is_Execvp (trace (snd (pyi_utils_create_child os env thisfile status argv)))
          = [Execvp thisfile
               (filter (\<lambda>a. \<not> (apple_windowed os \<and> prefix ''-psn'' a)) argv
                  @ (if apple_windowed os then pending_docs os else []))
               (snd (set_systemd_env env (child_getpid os)))])"
proof (intro conjI impI, goal_cases)
  case 1
  show ?case
    using copy_args_fields [of "apple_windowed os" argv proc0] by (simp add: proc0_def)
next
  case 2
  then show ?case
    by (simp add: create_child_unfold cleanup_unfold before_fork_fields emit_def child_argv_def)
qed

theorem pyi_utils_create_child_filters_argv_witness:
  "filter is_Execvp (trace (snd (pyi_utils_create_child
      \<lparr>apple_windowed = True, SIGCHLD = 20, SIGCLD = 20, pending_docs = [],
       fork_result = 0, child_getpid = 77, execvp_result = 0, incoming = [],
       wait_answers = [], raise_returns = False,
       signal_refused = (\<lambda>s. s = 0 \<or> s = 9 \<or> s = 17 \<or> 31 < s),
       default_fatal = (\<lambda>s. 0 < s \<and> s < 32 \<and> s \<notin> set [16, 17, 18, 19, 20, 21, 22, 23, 28, 29])\<rparr>
      Map.empty ''/app''
      \<lparr>has_temp_directory = False, temppath = [], homepath = ''/opt'', options = Map.empty\<rparr>
      [''/app'', ''-psn_0_98765'', ''one'', ''two''])))
     = [Execvp ''/app'' [''/app'', ''one'', ''two''] Map.empty]"
  using pyi_utils_create_child_filters_argv
          [where os = "\<lparr>apple_windowed = True, SIGCHLD = 20, SIGCLD = 20, pending_docs = [],
                         fork_result = 0, child_getpid = 77, execvp_result = 0, incoming = [],
                         wait_answers = [], raise_returns = False,
       signal_refused = (\<lambda>s. s = 0 \<or> s = 9 \<or> s = 17 \<or> 31 < s),
       default_fatal = (\<lambda>s. 0 < s \<and> s < 32 \<and> s \<notin> set [16, 17, 18, 19, 20, 21, 22, 23, 28, 29])\<rparr>"
             and env = Map.empty and thisfile = "''/app''"
             and status = "\<lparr>has_temp_directory = False, temppath = [], homepath = ''/opt'',
                             options = Map.empty\<rparr>"
             and argv = "[''/app'', ''-psn_0_98765'', ''one'', ''two'']"]
  by (simp add: set_systemd_env_def pyi_getenv_def)

end
